theory Spec2Isabelle
  imports Main "HOL-Library.Sublist" "HOL-Library.AList"
begin

section \<open>Values exchanged with the handlers\<close>

text \<open>
  The two services (\<^verbatim>\<open>services/insights-host-inventory/app.py\<close> and
  \<^verbatim>\<open>services/insights-rbac/app.py\<close>) are Flask handlers over a PostgreSQL database;
  the host service also calls the Kessel Inventory API over HTTP.

  \<open>request.get_json()\<close> yields a parsed JSON document: any JSON value, not only an
  object. Numbers are kept as integers (only their truthiness matters to the handlers),
  an object as its key/value pairs in document order with distinct keys.
\<close>

datatype json =
    JNull
  | JBool bool
  | JNum int
  | JStr string
  | JArr "json list"
  | JObj "(string \<times> json) list"

text \<open>
  Python exceptions that the handlers can meet, by class. \<open>RequestException\<close> stands for
  the classes below \<open>requests.exceptions.RequestException\<close> (connection errors, timeouts);
  \<open>OtherException\<close> for what the HTTP client raises outside that class, such as urllib3's
  \<open>LocationParseError\<close> for a host name it cannot parse, or a \<open>ValueError\<close>.
\<close>

datatype exn =
    BadRequest
  | AttributeError
  | TypeError
  | KeyError
  | OperationalError string
  | DatabaseError string
  | ProgrammingError string
  | RequestException string
  | OtherException string

text \<open>
  A parameter handed to \<open>cur.execute\<close>, which is also what the column then holds: a plain
  Python value adapted by the driver, a value wrapped in \<open>psycopg2.extras.Json\<close>, or a
  \<open>datetime\<close>.
\<close>

datatype sqlval =
    Plain json
  | Jsonb json
  | Timestamp nat

type_synonym row = "(string \<times> sqlval) list"

datatype stmt =
    InsertReturning string row
  | UpdateReturning string row string
  | DeleteFrom string string

datatype change =
    Inserted string row
  | Updated string row row
  | Deleted string row

text \<open>
  The committed database: its tables by qualified name, and the write-ahead log that
  change-data-capture reads (the handlers' comments: ``this INSERT triggers PostgreSQL WAL
  \<open>\<rightarrow>\<close> Debezium \<open>\<rightarrow>\<close> Kafka'').
\<close>

record database =
  tables :: "(string \<times> row list) list"
  wal :: "change list"

text \<open>An open connection: the transaction's working copy and its changes not yet committed.\<close>

record connection =
  working :: "(string \<times> row list) list"
  pending :: "change list"

record cursor =
  rowcount :: nat
  fetched :: "row list"

text \<open>
  How a call to the remote service ends: with a response (status code and text), with a
  \<open>RequestException\<close>, or with an exception of another class.
\<close>

datatype outcome =
    Responded nat string
  | Raised string
  | RaisedOther string

datatype level = INFO | WARNING | ERROR

datatype arg = AStr string | AJson json | ANat nat | AExn exn

text \<open>
  What a handler does to the outside, in program order: database calls that completed,
  log records (the format string and its arguments), and HTTP calls to Kessel with the
  URL, the JSON payload, the timeout in seconds and how the call ended.
\<close>

datatype event =
    Connect
  | Execute stmt
  | Commit
  | Log level string "arg list"
  | HttpPost string json nat outcome
  | HttpDelete string nat outcome

datatype body =
    Entity row
  | ErrorMsg string
  | ErrorStr exn
  | Empty

record response =
  status :: nat
  body :: body

record request =
  json_body :: "json option"

text \<open>
  Everything a handler reads from outside its arguments: the process environment, the
  next \<open>uuid.uuid4()\<close>, the readings of \<open>datetime.now()\<close> in call order, whether the
  database raises at connect, execute or commit (with the message), and how the Kessel call
  ends. The table declarations are not part of the services' sources: the columns a table
  has beyond those an INSERT names, with their default values, are the parameter
  \<open>column_defaults\<close>.
\<close>

record env =
  environ :: "(string \<times> string) list"
  uuid4 :: string
  datetime_now :: "nat \<Rightarrow> nat"
  connect_raises :: "string option"
  execute_raises :: "string option"
  commit_raises :: "string option"
  kessel_outcome :: outcome
  column_defaults :: "string \<Rightarrow> row"

record world =
  store :: database
  trace :: "event list"

section \<open>Sequencing, exceptions and \<open>try\<close>/\<open>except\<close>\<close>

type_synonym 'a io = "world \<Rightarrow> (exn + 'a) \<times> world"

definition io_return :: "'a \<Rightarrow> 'a io" where
  "io_return a = (\<lambda>w. (Inr a, w))"

definition io_raise :: "exn \<Rightarrow> 'a io" where
  "io_raise e = (\<lambda>w. (Inl e, w))"

definition io_bind :: "'a io \<Rightarrow> ('a \<Rightarrow> 'b io) \<Rightarrow> 'b io" where
  "io_bind m f = (\<lambda>w. case m w of (Inl e, w') \<Rightarrow> (Inl e, w') | (Inr a, w') \<Rightarrow> f a w')"

definition emit :: "event \<Rightarrow> unit io" where
  "emit e = (\<lambda>w. (Inr (), w\<lparr>trace := trace w @ [e]\<rparr>))"

text \<open>\<open>try: m except C as e: h e\<close>, where \<open>catches\<close> says which exceptions are of class \<open>C\<close>.\<close>

definition try_except :: "'a io \<Rightarrow> (exn \<Rightarrow> bool) \<Rightarrow> (exn \<Rightarrow> 'a io) \<Rightarrow> 'a io" where
  "try_except m catches h =
     (\<lambda>w. case m w of
        (Inl e, w') \<Rightarrow> if catches e then h e w' else (Inl e, w')
      | (Inr a, w') \<Rightarrow> (Inr a, w'))"

definition is_Exception :: "exn \<Rightarrow> bool" where
  "is_Exception e = True"

fun is_RequestException :: "exn \<Rightarrow> bool" where
  "is_RequestException (RequestException m) = True"
| "is_RequestException e = False"

section \<open>Python values\<close>

fun truthy :: "json \<Rightarrow> bool" where
  "truthy JNull = False"
| "truthy (JBool b) = b"
| "truthy (JNum n) = (n \<noteq> 0)"
| "truthy (JStr s) = (s \<noteq> [])"
| "truthy (JArr xs) = (xs \<noteq> [])"
| "truthy (JObj kvs) = (kvs \<noteq> [])"

text \<open>\<open>data.get(k, d)\<close>: only a dict has \<open>get\<close>.\<close>

definition dict_get :: "(string \<times> json) list \<Rightarrow> string \<Rightarrow> json \<Rightarrow> json" where
  "dict_get kvs k d = (case map_of kvs k of None \<Rightarrow> d | Some v \<Rightarrow> v)"

fun py_get :: "json \<Rightarrow> string \<Rightarrow> json \<Rightarrow> json io" where
  "py_get (JObj kvs) k d = io_return (dict_get kvs k d)"
| "py_get j k d = io_raise AttributeError"

text \<open>
  \<open>k in data\<close>: a key of a dict, an element of a list, a substring of a string; the other
  values are not iterable.
\<close>

fun py_contains :: "string \<Rightarrow> json \<Rightarrow> bool io" where
  "py_contains k (JObj kvs) = io_return (map_of kvs k \<noteq> None)"
| "py_contains k (JArr xs) = io_return (List.member xs (JStr k))"
| "py_contains k (JStr s) = io_return (sublist k s)"
| "py_contains k j = io_raise TypeError"

text \<open>\<open>data[k]\<close> with a string \<open>k\<close>: lists and strings take integer indices only.\<close>

fun py_index :: "json \<Rightarrow> string \<Rightarrow> json io" where
  "py_index (JObj kvs) k = (case map_of kvs k of None \<Rightarrow> io_raise KeyError | Some v \<Rightarrow> io_return v)"
| "py_index j k = io_raise TypeError"

definition get_json :: "request \<Rightarrow> json io" where
  "get_json req = (case json_body req of None \<Rightarrow> io_raise BadRequest | Some j \<Rightarrow> io_return j)"

definition getenv :: "env \<Rightarrow> string \<Rightarrow> string \<Rightarrow> string" where
  "getenv env k d = (case map_of (environ env) k of None \<Rightarrow> d | Some v \<Rightarrow> v)"

definition KESSEL_INVENTORY_URL :: "env \<Rightarrow> string" where
  "KESSEL_INVENTORY_URL env = getenv env ''KESSEL_INVENTORY_API_URL'' ''http://kessel-inventory-api:8000''"

definition jsonify_error :: "string \<Rightarrow> nat \<Rightarrow> response" where
  "jsonify_error msg code = \<lparr>status = code, body = ErrorMsg msg\<rparr>"

section \<open>The database driver\<close>

text \<open>The driver adapts \<open>None\<close>, booleans, numbers, strings and lists of those; not a dict.\<close>

fun adaptable :: "json \<Rightarrow> bool" where
  "adaptable (JObj kvs) = False"
| "adaptable (JArr xs) = list_all adaptable xs"
| "adaptable j = True"

fun adaptable_param :: "sqlval \<Rightarrow> bool" where
  "adaptable_param (Plain j) = adaptable j"
| "adaptable_param v = True"

definition get_db_connection :: "env \<Rightarrow> connection io" where
  "get_db_connection env =
     (case connect_raises env of
        Some m \<Rightarrow> io_raise (OperationalError m)
      | None \<Rightarrow> (\<lambda>w. (Inr \<lparr>working = tables (store w), pending = []\<rparr>, w\<lparr>trace := trace w @ [Connect]\<rparr>)))"

text \<open>\<open>WHERE id = %s\<close>: the rows whose \<open>id\<close> is the given string, as an INSERT stored it.\<close>

definition has_id :: "string \<Rightarrow> row \<Rightarrow> bool" where
  "has_id i r = (map_of r ''id'' = Some (Plain (JStr i)))"

definition apply_sets :: "row \<Rightarrow> row \<Rightarrow> row" where
  "apply_sets sets r = fold (\<lambda>cv. AList.update (fst cv) (snd cv)) sets r"

definition stmt_table :: "stmt \<Rightarrow> string" where
  "stmt_table s = (case s of InsertReturning t r \<Rightarrow> t | UpdateReturning t sets i \<Rightarrow> t | DeleteFrom t i \<Rightarrow> t)"

definition stmt_params :: "stmt \<Rightarrow> sqlval list" where
  "stmt_params s =
     (case s of
        InsertReturning t r \<Rightarrow> map snd r
      | UpdateReturning t sets i \<Rightarrow> map snd sets @ [Plain (JStr i)]
      | DeleteFrom t i \<Rightarrow> [Plain (JStr i)])"

text \<open>
  The row an INSERT stores: the columns it names, then the table's other columns at their
  defaults.
\<close>

definition inserted_row :: "env \<Rightarrow> string \<Rightarrow> row \<Rightarrow> row" where
  "inserted_row env t r = r @ filter (\<lambda>cv. map_of r (fst cv) = None) (column_defaults env t)"

text \<open>
  What a statement does to the rows of its table: the rows after it, the changes it logs,
  and the cursor (\<open>rowcount\<close>, and the rows of \<open>RETURNING *\<close>).
\<close>

definition run_stmt :: "env \<Rightarrow> stmt \<Rightarrow> row list \<Rightarrow> row list \<times> change list \<times> cursor" where
  "run_stmt env s rows =
     (case s of
        InsertReturning t r \<Rightarrow>
          (let r' = inserted_row env t r
           in (rows @ [r'], [Inserted t r'], \<lparr>rowcount = 1, fetched = [r']\<rparr>))
      | UpdateReturning t sets i \<Rightarrow>
          (let hit = filter (has_id i) rows
           in (map (\<lambda>r. if has_id i r then apply_sets sets r else r) rows,
               map (\<lambda>r. Updated t r (apply_sets sets r)) hit,
               \<lparr>rowcount = length hit, fetched = map (apply_sets sets) hit\<rparr>))
      | DeleteFrom t i \<Rightarrow>
          (let hit = filter (has_id i) rows
           in (filter (\<lambda>r. \<not> has_id i r) rows,
               map (Deleted t) hit,
               \<lparr>rowcount = length hit, fetched = []\<rparr>)))"

text \<open>
  \<open>cur.execute\<close>: raises when the database says so, when the table does not exist or when
  a parameter cannot be adapted; otherwise the statement runs inside the transaction. What
  the database itself rejects (a constraint of a table whose declaration is not in the
  sources, a malformed id, a lost connection) is the parameter \<open>execute_raises\<close>.
\<close>

definition execute :: "env \<Rightarrow> stmt \<Rightarrow> connection \<Rightarrow> (cursor \<times> connection) io" where
  "execute env s conn =
     (case execute_raises env of
        Some m \<Rightarrow> io_raise (DatabaseError m)
      | None \<Rightarrow>
          if \<not> list_all adaptable_param (stmt_params s) then io_raise (ProgrammingError ''can't adapt type'')
          else
            (case map_of (working conn) (stmt_table s) of
               None \<Rightarrow> io_raise (ProgrammingError ''relation does not exist'')
             | Some rows \<Rightarrow>
                 (case run_stmt env s rows of
                    (rows', changes, cur) \<Rightarrow>
                      io_bind (emit (Execute s))
                        (\<lambda>_. io_return
                           (cur, \<lparr>working = AList.update (stmt_table s) rows' (working conn),
                                  pending = pending conn @ changes\<rparr>)))))"

text \<open>\<open>dict(cur.fetchone())\<close>: \<open>fetchone\<close> gives \<open>None\<close> when no row is left, and \<open>dict(None)\<close> raises.\<close>

definition fetchone_dict :: "cursor \<Rightarrow> row io" where
  "fetchone_dict cur = (case fetched cur of [] \<Rightarrow> io_raise TypeError | r # rs \<Rightarrow> io_return r)"

text \<open>\<open>conn.commit()\<close>: the working copy becomes the store and the changes reach the log, together.\<close>

definition commit :: "env \<Rightarrow> connection \<Rightarrow> unit io" where
  "commit env conn =
     (case commit_raises env of
        Some m \<Rightarrow> io_raise (OperationalError m)
      | None \<Rightarrow>
          (\<lambda>w. (Inr (),
                 w\<lparr>store := \<lparr>tables = working conn, wal = wal (store w) @ pending conn\<rparr>,
                   trace := trace w @ [Commit]\<rparr>)))"

section \<open>The HTTP client\<close>

text \<open>
  \<open>requests.post(url, json=payload, timeout=t)\<close> and \<open>requests.delete(url, timeout=t)\<close>:
  the call ends with a response (status code and text), raises a \<open>RequestException\<close>
  (connection error, timeout) or raises an exception of another class; in each case it
  has ended when the next statement runs.
\<close>

definition requests_post :: "env \<Rightarrow> string \<Rightarrow> json \<Rightarrow> nat \<Rightarrow> (nat \<times> string) io" where
  "requests_post env url payload t =
     io_bind (emit (HttpPost url payload t (kessel_outcome env)))
       (\<lambda>_. case kessel_outcome env of
               Responded code txt \<Rightarrow> io_return (code, txt)
             | Raised m \<Rightarrow> io_raise (RequestException m)
             | RaisedOther m \<Rightarrow> io_raise (OtherException m))"

definition requests_delete :: "env \<Rightarrow> string \<Rightarrow> nat \<Rightarrow> (nat \<times> string) io" where
  "requests_delete env url t =
     io_bind (emit (HttpDelete url t (kessel_outcome env)))
       (\<lambda>_. case kessel_outcome env of
               Responded code txt \<Rightarrow> io_return (code, txt)
             | Raised m \<Rightarrow> io_raise (RequestException m)
             | RaisedOther m \<Rightarrow> io_raise (OtherException m))"

section \<open>The host inventory service\<close>

definition kessel_host_payload :: "string \<Rightarrow> json \<Rightarrow> json \<Rightarrow> json \<Rightarrow> json" where
  "kessel_host_payload host_id workspace_id display_name canonical_facts =
     JObj [(''resource_type'', JStr ''hbi/host''),
           (''resource_id'', JStr host_id),
           (''workspace_id'',
              if truthy workspace_id then workspace_id
              else JStr ''00000000-0000-0000-0000-000000000001''),
           (''metadata'',
              JObj [(''display_name'', display_name), (''canonical_facts'', canonical_facts)])]"

text \<open>Step 2 of \<open>create_host\<close>: the direct call to Kessel, inside its own \<open>try\<close>.\<close>

definition report_host_to_kessel :: "env \<Rightarrow> string \<Rightarrow> json \<Rightarrow> json \<Rightarrow> json \<Rightarrow> unit io" where
  "report_host_to_kessel env host_id workspace_id display_name canonical_facts =
     try_except
       (io_bind
          (requests_post env (KESSEL_INVENTORY_URL env @ ''/api/inventory/v1beta2/resources'')
             (kessel_host_payload host_id workspace_id display_name canonical_facts) 5)
          (\<lambda>kessel_response.
             if fst kessel_response = 200 \<or> fst kessel_response = 201
             then emit (Log INFO ''Successfully reported host to Kessel: {}'' [AStr host_id])
             else emit (Log WARNING ''Kessel API returned {}: {}''
                          [ANat (fst kessel_response), AStr (snd kessel_response)])))
       is_RequestException
       (\<lambda>e. emit (Log WARNING ''Failed to report to Kessel API (will sync via CDC): {}'' [AExn e]))"

definition create_host_try :: "env \<Rightarrow> request \<Rightarrow> response io" where
  "create_host_try env req =
     io_bind (get_json req) (\<lambda>data.
     let host_id = uuid4 env in
     io_bind (py_get data ''display_name'' JNull) (\<lambda>display_name.
     io_bind (py_get data ''canonical_facts'' (JObj [])) (\<lambda>canonical_facts.
     io_bind (py_get data ''workspace_id'' JNull) (\<lambda>workspace_id.
     if \<not> truthy display_name then io_return (jsonify_error ''display_name is required'' 400)
     else
       io_bind (get_db_connection env) (\<lambda>conn.
       io_bind (execute env
                  (InsertReturning ''inventory.hosts''
                     [(''id'', Plain (JStr host_id)),
                      (''canonical_facts'', Jsonb canonical_facts),
                      (''display_name'', Plain display_name),
                      (''workspace_id'', Plain workspace_id),
                      (''created_at'', Timestamp (datetime_now env 0)),
                      (''updated_at'', Timestamp (datetime_now env 1))])
                  conn) (\<lambda>cc.
       io_bind (fetchone_dict (fst cc)) (\<lambda>host.
       io_bind (commit env (snd cc)) (\<lambda>_.
       io_bind (emit (Log INFO ''Created host in database: {} - {}'' [AStr host_id, AJson display_name])) (\<lambda>_.
       io_bind (report_host_to_kessel env host_id workspace_id display_name canonical_facts) (\<lambda>_.
       io_return \<lparr>status = 201, body = Entity host\<rparr>))))))))))"

definition create_host :: "env \<Rightarrow> request \<Rightarrow> response io" where
  "create_host env req =
     try_except (create_host_try env req) is_Exception
       (\<lambda>e. io_bind (emit (Log ERROR ''Error creating host: {}'' [AExn e]))
               (\<lambda>_. io_return \<lparr>status = 500, body = ErrorStr e\<rparr>))"

text \<open>The attempt of \<open>delete_host\<close> to delete from Kessel too, inside its own \<open>try\<close>.\<close>

definition delete_host_from_kessel :: "env \<Rightarrow> string \<Rightarrow> unit io" where
  "delete_host_from_kessel env host_id =
     try_except
       (io_bind
          (requests_delete env (KESSEL_INVENTORY_URL env @ ''/api/inventory/v1/resources/hbi/host/'' @ host_id) 5)
          (\<lambda>_. io_return ()))
       is_RequestException
       (\<lambda>e. emit (Log WARNING ''Failed to delete from Kessel API: {}'' [AExn e]))"

definition delete_host_try :: "env \<Rightarrow> string \<Rightarrow> response io" where
  "delete_host_try env host_id =
     io_bind (get_db_connection env) (\<lambda>conn.
     io_bind (execute env (DeleteFrom ''inventory.hosts'' host_id) conn) (\<lambda>cc.
     if rowcount (fst cc) = 0 then io_return (jsonify_error ''Host not found'' 404)
     else
       io_bind (commit env (snd cc)) (\<lambda>_.
       io_bind (emit (Log INFO ''Deleted host: {}'' [AStr host_id])) (\<lambda>_.
       io_bind (delete_host_from_kessel env host_id) (\<lambda>_.
       io_return \<lparr>status = 204, body = Empty\<rparr>)))))"

definition delete_host :: "env \<Rightarrow> string \<Rightarrow> response io" where
  "delete_host env host_id =
     try_except (delete_host_try env host_id) is_Exception
       (\<lambda>e. io_bind (emit (Log ERROR ''Error deleting host: {}'' [AExn e]))
               (\<lambda>_. io_return \<lparr>status = 500, body = ErrorStr e\<rparr>))"

text \<open>
  \<open>update_host\<close> builds its UPDATE from the body: the list \<open>updates\<close> of the source, with
  the value each entry sets.
\<close>

definition update_host_try :: "env \<Rightarrow> string \<Rightarrow> request \<Rightarrow> response io" where
  "update_host_try env host_id req =
     io_bind (get_json req) (\<lambda>data.
     io_bind (get_db_connection env) (\<lambda>conn.
     io_bind (py_contains ''display_name'' data) (\<lambda>has_display_name.
     io_bind (if has_display_name
              then io_bind (py_index data ''display_name'') (\<lambda>v. io_return [(''display_name'', Plain v)])
              else io_return []) (\<lambda>updates1.
     io_bind (py_contains ''canonical_facts'' data) (\<lambda>has_canonical_facts.
     io_bind (if has_canonical_facts
              then io_bind (py_index data ''canonical_facts'')
                     (\<lambda>v. io_return (updates1 @ [(''canonical_facts'', Jsonb v)]))
              else io_return updates1) (\<lambda>updates.
     if updates = [] then io_return (jsonify_error ''No fields to update'' 400)
     else
       io_bind (execute env
                  (UpdateReturning ''inventory.hosts''
                     (updates @ [(''updated_at'', Timestamp (datetime_now env 0))]) host_id)
                  conn) (\<lambda>cc.
       if rowcount (fst cc) = 0 then io_return (jsonify_error ''Host not found'' 404)
       else
         io_bind (fetchone_dict (fst cc)) (\<lambda>host.
         io_bind (commit env (snd cc)) (\<lambda>_.
         io_bind (emit (Log INFO ''Updated host: {}'' [AStr host_id])) (\<lambda>_.
         io_return \<lparr>status = 200, body = Entity host\<rparr>))))))))))"

definition update_host :: "env \<Rightarrow> string \<Rightarrow> request \<Rightarrow> response io" where
  "update_host env host_id req =
     try_except (update_host_try env host_id req) is_Exception
       (\<lambda>e. io_bind (emit (Log ERROR ''Error updating host: {}'' [AExn e]))
               (\<lambda>_. io_return \<lparr>status = 500, body = ErrorStr e\<rparr>))"

definition create_host_group_try :: "env \<Rightarrow> request \<Rightarrow> response io" where
  "create_host_group_try env req =
     io_bind (get_json req) (\<lambda>data.
     let group_id = uuid4 env in
     io_bind (py_get data ''name'' JNull) (\<lambda>name.
     io_bind (py_get data ''workspace_id'' JNull) (\<lambda>workspace_id.
     if \<not> truthy name then io_return (jsonify_error ''name is required'' 400)
     else
       io_bind (get_db_connection env) (\<lambda>conn.
       io_bind (execute env
                  (InsertReturning ''inventory.host_groups''
                     [(''id'', Plain (JStr group_id)),
                      (''name'', Plain name),
                      (''workspace_id'', Plain workspace_id),
                      (''created_at'', Timestamp (datetime_now env 0))])
                  conn) (\<lambda>cc.
       io_bind (fetchone_dict (fst cc)) (\<lambda>group.
       io_bind (commit env (snd cc)) (\<lambda>_.
       io_bind (emit (Log INFO ''Created host group: {} - {}'' [AStr group_id, AJson name])) (\<lambda>_.
       io_return \<lparr>status = 201, body = Entity group\<rparr>))))))))"

definition create_host_group :: "env \<Rightarrow> request \<Rightarrow> response io" where
  "create_host_group env req =
     try_except (create_host_group_try env req) is_Exception
       (\<lambda>e. io_bind (emit (Log ERROR ''Error creating host group: {}'' [AExn e]))
               (\<lambda>_. io_return \<lparr>status = 500, body = ErrorStr e\<rparr>))"

section \<open>The RBAC service\<close>

definition create_workspace_try :: "env \<Rightarrow> request \<Rightarrow> response io" where
  "create_workspace_try env req =
     io_bind (get_json req) (\<lambda>data.
     let workspace_id = uuid4 env in
     io_bind (py_get data ''name'' JNull) (\<lambda>name.
     io_bind (py_get data ''description'' (JStr [])) (\<lambda>description.
     if \<not> truthy name then io_return (jsonify_error ''name is required'' 400)
     else
       io_bind (get_db_connection env) (\<lambda>conn.
       io_bind (execute env
                  (InsertReturning ''rbac.workspaces''
                     [(''id'', Plain (JStr workspace_id)),
                      (''name'', Plain name),
                      (''description'', Plain description),
                      (''created_at'', Timestamp (datetime_now env 0)),
                      (''updated_at'', Timestamp (datetime_now env 1))])
                  conn) (\<lambda>cc.
       io_bind (fetchone_dict (fst cc)) (\<lambda>workspace.
       io_bind (commit env (snd cc)) (\<lambda>_.
       io_bind (emit (Log INFO ''Created workspace: {} - {}'' [AStr workspace_id, AJson name])) (\<lambda>_.
       io_bind (emit (Log INFO ''CDC will propagate this to Kessel via Kafka'' [])) (\<lambda>_.
       io_return \<lparr>status = 201, body = Entity workspace\<rparr>)))))))))"

definition create_workspace :: "env \<Rightarrow> request \<Rightarrow> response io" where
  "create_workspace env req =
     try_except (create_workspace_try env req) is_Exception
       (\<lambda>e. io_bind (emit (Log ERROR ''Error creating workspace: {}'' [AExn e]))
               (\<lambda>_. io_return \<lparr>status = 500, body = ErrorStr e\<rparr>))"

definition delete_workspace_try :: "env \<Rightarrow> string \<Rightarrow> response io" where
  "delete_workspace_try env workspace_id =
     io_bind (get_db_connection env) (\<lambda>conn.
     io_bind (execute env (DeleteFrom ''rbac.workspaces'' workspace_id) conn) (\<lambda>cc.
     if rowcount (fst cc) = 0 then io_return (jsonify_error ''Workspace not found'' 404)
     else
       io_bind (commit env (snd cc)) (\<lambda>_.
       io_bind (emit (Log INFO ''Deleted workspace: {}'' [AStr workspace_id])) (\<lambda>_.
       io_bind (emit (Log INFO ''CDC will propagate DELETE to Kessel via Kafka'' [])) (\<lambda>_.
       io_return \<lparr>status = 204, body = Empty\<rparr>)))))"

definition delete_workspace :: "env \<Rightarrow> string \<Rightarrow> response io" where
  "delete_workspace env workspace_id =
     try_except (delete_workspace_try env workspace_id) is_Exception
       (\<lambda>e. io_bind (emit (Log ERROR ''Error deleting workspace: {}'' [AExn e]))
               (\<lambda>_. io_return \<lparr>status = 500, body = ErrorStr e\<rparr>))"

definition create_role_try :: "env \<Rightarrow> request \<Rightarrow> response io" where
  "create_role_try env req =
     io_bind (get_json req) (\<lambda>data.
     let role_id = uuid4 env in
     io_bind (py_get data ''name'' JNull) (\<lambda>name.
     io_bind (py_get data ''workspace_id'' JNull) (\<lambda>workspace_id.
     if \<not> truthy name \<or> \<not> truthy workspace_id
     then io_return (jsonify_error ''name and workspace_id are required'' 400)
     else
       io_bind (get_db_connection env) (\<lambda>conn.
       io_bind (execute env
                  (InsertReturning ''rbac.roles''
                     [(''id'', Plain (JStr role_id)),
                      (''name'', Plain name),
                      (''workspace_id'', Plain workspace_id),
                      (''created_at'', Timestamp (datetime_now env 0)),
                      (''updated_at'', Timestamp (datetime_now env 1))])
                  conn) (\<lambda>cc.
       io_bind (fetchone_dict (fst cc)) (\<lambda>role.
       io_bind (commit env (snd cc)) (\<lambda>_.
       io_bind (emit (Log INFO ''Created role: {} - {} in workspace {}''
                        [AStr role_id, AJson name, AJson workspace_id])) (\<lambda>_.
       io_return \<lparr>status = 201, body = Entity role\<rparr>))))))))"

definition create_role :: "env \<Rightarrow> request \<Rightarrow> response io" where
  "create_role env req =
     try_except (create_role_try env req) is_Exception
       (\<lambda>e. io_bind (emit (Log ERROR ''Error creating role: {}'' [AExn e]))
               (\<lambda>_. io_return \<lparr>status = 500, body = ErrorStr e\<rparr>))"

section \<open>Serving one request\<close>

text \<open>
  A request is served against the committed database, with an empty trace: the result is
  the handler's return value (or the exception that left it), the database afterwards and
  what the handler did before it returned.
\<close>

definition serve :: "response io \<Rightarrow> database \<Rightarrow> (exn + response) \<times> world" where
  "serve h db = h \<lparr>store = db, trace = []\<rparr>"

section \<open>Transactions in closed form\<close>

text \<open>
  The three transactions the handlers run, summarised: what connect, execute and commit
  amount to on a database. A transaction raises (with the database calls that completed
  before), matches no row, or commits; the database changes only in the last case.
\<close>

datatype 'a txn =
    Raises exn "event list"
  | NoRowMatched
  | Committed 'a database

definition insert_commit :: "env \<Rightarrow> string \<Rightarrow> row \<Rightarrow> database \<Rightarrow> (exn \<times> event list) + (row \<times> database)" where
  "insert_commit env t r db =
     (case connect_raises env of
        Some m \<Rightarrow> Inl (OperationalError m, [])
      | None \<Rightarrow>
         (case execute_raises env of
            Some m \<Rightarrow> Inl (DatabaseError m, [Connect])
          | None \<Rightarrow>
             if \<not> list_all adaptable_param (map snd r)
             then Inl (ProgrammingError ''can't adapt type'', [Connect])
             else
               (case map_of (tables db) t of
                  None \<Rightarrow> Inl (ProgrammingError ''relation does not exist'', [Connect])
                | Some rows \<Rightarrow>
                   (case commit_raises env of
                      Some m \<Rightarrow> Inl (OperationalError m, [Connect, Execute (InsertReturning t r)])
                    | None \<Rightarrow>
                        Inr (inserted_row env t r,
                             \<lparr>tables = AList.update t (rows @ [inserted_row env t r]) (tables db),
                              wal = wal db @ [Inserted t (inserted_row env t r)]\<rparr>)))))"

definition delete_commit :: "env \<Rightarrow> string \<Rightarrow> string \<Rightarrow> database \<Rightarrow> unit txn" where
  "delete_commit env t i db =
     (case connect_raises env of
        Some m \<Rightarrow> Raises (OperationalError m) []
      | None \<Rightarrow>
         (case execute_raises env of
            Some m \<Rightarrow> Raises (DatabaseError m) [Connect]
          | None \<Rightarrow>
             (case map_of (tables db) t of
                None \<Rightarrow> Raises (ProgrammingError ''relation does not exist'') [Connect]
              | Some rows \<Rightarrow>
                 if filter (has_id i) rows = [] then NoRowMatched
                 else
                   (case commit_raises env of
                      Some m \<Rightarrow> Raises (OperationalError m) [Connect, Execute (DeleteFrom t i)]
                    | None \<Rightarrow>
                        Committed ()
                          \<lparr>tables = AList.update t (filter (\<lambda>r. \<not> has_id i r) rows) (tables db),
                           wal = wal db @ map (Deleted t) (filter (has_id i) rows)\<rparr>))))"

text \<open>The UPDATE of \<open>update_host\<close> runs on a connection that is already open.\<close>

definition update_commit :: "env \<Rightarrow> string \<Rightarrow> row \<Rightarrow> string \<Rightarrow> database \<Rightarrow> row txn" where
  "update_commit env t sets i db =
     (case execute_raises env of
        Some m \<Rightarrow> Raises (DatabaseError m) []
      | None \<Rightarrow>
         if \<not> list_all adaptable_param (map snd sets)
         then Raises (ProgrammingError ''can't adapt type'') []
         else
           (case map_of (tables db) t of
              None \<Rightarrow> Raises (ProgrammingError ''relation does not exist'') []
            | Some rows \<Rightarrow>
               (case filter (has_id i) rows of
                  [] \<Rightarrow> NoRowMatched
                | r # rs \<Rightarrow>
                   (case commit_raises env of
                      Some m \<Rightarrow> Raises (OperationalError m) [Execute (UpdateReturning t sets i)]
                    | None \<Rightarrow>
                        Committed (apply_sets sets r)
                          \<lparr>tables = AList.update t
                                      (map (\<lambda>r. if has_id i r then apply_sets sets r else r) rows) (tables db),
                           wal = wal db @ map (\<lambda>r. Updated t r (apply_sets sets r)) (r # rs)\<rparr>))))"

text \<open>What the \<open>except Exception\<close> clause of every handler returns.\<close>

definition failed :: "string \<Rightarrow> exn \<Rightarrow> database \<Rightarrow> event list \<Rightarrow> (exn + response) \<times> world" where
  "failed msg e db tr =
     (Inr \<lparr>status = 500, body = ErrorStr e\<rparr>,
      \<lparr>store = db, trace = tr @ [Log ERROR msg [AExn e]]\<rparr>)"

text \<open>The rows of a table, none when the table does not exist.\<close>

definition table_rows :: "database \<Rightarrow> string \<Rightarrow> row list" where
  "table_rows db t = (case map_of (tables db) t of None \<Rightarrow> [] | Some rows \<Rightarrow> rows)"

text \<open>
  Whether the handler's inner \<open>try\<close> deals with the way the call ended: it does with a
  response of any status and with a \<open>RequestException\<close>; an exception of another class
  leaves the inner \<open>try\<close> and reaches the handler's outer \<open>except Exception\<close>.
\<close>

fun handled :: "outcome \<Rightarrow> bool" where
  "handled (Responded code txt) = True"
| "handled (Raised m) = True"
| "handled (RaisedOther m) = False"

text \<open>
  The log record that follows the call of \<open>create_host\<close> to Kessel: written by the inner
  \<open>try\<close> or its \<open>except\<close> clause, or by the outer \<open>except\<close> clause for an exception of
  another class. After the call of \<open>delete_host\<close> a response is not logged.
\<close>

definition kessel_log :: "env \<Rightarrow> string \<Rightarrow> event" where
  "kessel_log env host_id =
     (case kessel_outcome env of
        Responded code txt \<Rightarrow>
          if code = 200 \<or> code = 201
          then Log INFO ''Successfully reported host to Kessel: {}'' [AStr host_id]
          else Log WARNING ''Kessel API returned {}: {}'' [ANat code, AStr txt]
      | Raised m \<Rightarrow>
          Log WARNING ''Failed to report to Kessel API (will sync via CDC): {}''
            [AExn (RequestException m)]
      | RaisedOther m \<Rightarrow> Log ERROR ''Error creating host: {}'' [AExn (OtherException m)])"

definition kessel_delete_log :: "env \<Rightarrow> event list" where
  "kessel_delete_log env =
     (case kessel_outcome env of
        Responded code txt \<Rightarrow> []
      | Raised m \<Rightarrow>
          [Log WARNING ''Failed to delete from Kessel API: {}'' [AExn (RequestException m)]]
      | RaisedOther m \<Rightarrow> [Log ERROR ''Error deleting host: {}'' [AExn (OtherException m)]])"

text \<open>
  The answer of \<open>create_host\<close> and \<open>delete_host\<close> once the transaction has committed and
  the call to Kessel has ended: the success response, or the 500 of the outer \<open>except\<close>
  clause when the call raised outside \<open>RequestException\<close>.
\<close>

definition after_push :: "env \<Rightarrow> response \<Rightarrow> response" where
  "after_push env ok =
     (case kessel_outcome env of
        RaisedOther m \<Rightarrow> \<lparr>status = 500, body = ErrorStr (OtherException m)\<rparr>
      | _ \<Rightarrow> ok)"

text \<open>The database after a committed statement on table \<open>t\<close>.\<close>

definition committed_as :: "database \<Rightarrow> string \<Rightarrow> row list \<Rightarrow> change list \<Rightarrow> database" where
  "committed_as db t rows changes =
     \<lparr>tables = AList.update t rows (tables db), wal = wal db @ changes\<rparr>"

text \<open>The list \<open>updates\<close> that \<open>update_host\<close> builds from an object body, with the values it sets.\<close>

definition host_updates :: "(string \<times> json) list \<Rightarrow> row" where
  "host_updates kvs =
     (case map_of kvs ''display_name'' of None \<Rightarrow> [] | Some v \<Rightarrow> [(''display_name'', Plain v)]) @
     (case map_of kvs ''canonical_facts'' of None \<Rightarrow> [] | Some v \<Rightarrow> [(''canonical_facts'', Jsonb v)])"

text \<open>The parameter rows of the four INSERT statements, for an object body.\<close>

definition host_params :: "env \<Rightarrow> (string \<times> json) list \<Rightarrow> row" where
  "host_params env kvs =
     [(''id'', Plain (JStr (uuid4 env))),
      (''canonical_facts'', Jsonb (dict_get kvs ''canonical_facts'' (JObj []))),
      (''display_name'', Plain (dict_get kvs ''display_name'' JNull)),
      (''workspace_id'', Plain (dict_get kvs ''workspace_id'' JNull)),
      (''created_at'', Timestamp (datetime_now env 0)),
      (''updated_at'', Timestamp (datetime_now env 1))]"

definition host_group_params :: "env \<Rightarrow> (string \<times> json) list \<Rightarrow> row" where
  "host_group_params env kvs =
     [(''id'', Plain (JStr (uuid4 env))),
      (''name'', Plain (dict_get kvs ''name'' JNull)),
      (''workspace_id'', Plain (dict_get kvs ''workspace_id'' JNull)),
      (''created_at'', Timestamp (datetime_now env 0))]"

definition workspace_params :: "env \<Rightarrow> (string \<times> json) list \<Rightarrow> row" where
  "workspace_params env kvs =
     [(''id'', Plain (JStr (uuid4 env))),
      (''name'', Plain (dict_get kvs ''name'' JNull)),
      (''description'', Plain (dict_get kvs ''description'' (JStr []))),
      (''created_at'', Timestamp (datetime_now env 0)),
      (''updated_at'', Timestamp (datetime_now env 1))]"

definition role_params :: "env \<Rightarrow> (string \<times> json) list \<Rightarrow> row" where
  "role_params env kvs =
     [(''id'', Plain (JStr (uuid4 env))),
      (''name'', Plain (dict_get kvs ''name'' JNull)),
      (''workspace_id'', Plain (dict_get kvs ''workspace_id'' JNull)),
      (''created_at'', Timestamp (datetime_now env 0)),
      (''updated_at'', Timestamp (datetime_now env 1))]"

section \<open>Reading the result of a request\<close>

text \<open>
  The status the client sees (Flask answers an exception that leaves a view with 500), the
  database after the request, and what the handler had done when it returned.
\<close>

definition status_of :: "(exn + response) \<times> world \<Rightarrow> nat" where
  "status_of r = (case fst r of Inl e \<Rightarrow> 500 | Inr resp \<Rightarrow> status resp)"

definition db_after :: "(exn + response) \<times> world \<Rightarrow> database" where
  "db_after r = store (snd r)"

definition trace_of :: "(exn + response) \<times> world \<Rightarrow> event list" where
  "trace_of r = trace (snd r)"

text \<open>The calls to the remote service among the events, and the timeout each was made with.\<close>

fun is_http :: "event \<Rightarrow> bool" where
  "is_http (HttpPost url payload t out) = True"
| "is_http (HttpDelete url t out) = True"
| "is_http ev = False"

definition http_calls :: "event list \<Rightarrow> event list" where
  "http_calls evs = filter is_http evs"

fun timeout_of :: "event \<Rightarrow> nat option" where
  "timeout_of (HttpPost url payload t out) = Some t"
| "timeout_of (HttpDelete url t out) = Some t"
| "timeout_of ev = None"

text \<open>The keys of the JSON object a call sends (a DELETE sends no body).\<close>

fun payload_keys :: "event \<Rightarrow> string list" where
  "payload_keys (HttpPost url (JObj kvs) t out) = map fst kvs"
| "payload_keys ev = []"

text \<open>
  A request that changed nothing: it was answered with an error status, the database is as
  before, and the handler neither committed nor called the remote service.
\<close>

definition left_unchanged :: "database \<Rightarrow> (exn + response) \<times> world \<Rightarrow> bool" where
  "left_unchanged db r =
     (status_of r \<in> {400, 404, 500} \<and> db_after r = db \<and>
      Commit \<notin> set (trace_of r) \<and> http_calls (trace_of r) = [])"

text \<open>
  The fields of the request body when it is a JSON object, and the two calls the host
  service makes to Kessel, as \<open>create_host\<close> and \<open>delete_host\<close> build them.
\<close>

definition body_fields :: "request \<Rightarrow> (string \<times> json) list" where
  "body_fields req = (case json_body req of Some (JObj kvs) \<Rightarrow> kvs | _ \<Rightarrow> [])"

definition host_push :: "env \<Rightarrow> request \<Rightarrow> event" where
  "host_push env req =
     HttpPost (KESSEL_INVENTORY_URL env @ ''/api/inventory/v1beta2/resources'')
       (kessel_host_payload (uuid4 env)
          (dict_get (body_fields req) ''workspace_id'' JNull)
          (dict_get (body_fields req) ''display_name'' JNull)
          (dict_get (body_fields req) ''canonical_facts'' (JObj []))) 5 (kessel_outcome env)"

definition host_delete_push :: "env \<Rightarrow> string \<Rightarrow> event" where
  "host_delete_push env host_id =
     HttpDelete (KESSEL_INVENTORY_URL env @ ''/api/inventory/v1/resources/hbi/host/'' @ host_id)
       5 (kessel_outcome env)"

text \<open>The entity a response carries in its body, when it carries one.\<close>

definition entity_of :: "(exn + response) \<times> world \<Rightarrow> row" where
  "entity_of r =
     (case fst r of
        Inl e \<Rightarrow> []
      | Inr resp \<Rightarrow> (case body resp of Entity entity \<Rightarrow> entity | _ \<Rightarrow> []))"

text \<open>The statements among the events.\<close>

fun is_execute :: "event \<Rightarrow> bool" where
  "is_execute (Execute s) = True"
| "is_execute ev = False"

text \<open>
  The database after a committed INSERT, DELETE or UPDATE on table \<open>t\<close>: the rows and the
  changes are those of \<open>run_stmt\<close>.
\<close>

definition insert_result :: "env \<Rightarrow> string \<Rightarrow> row \<Rightarrow> database \<Rightarrow> database" where
  "insert_result env t r db =
     committed_as db t (table_rows db t @ [inserted_row env t r]) [Inserted t (inserted_row env t r)]"

definition delete_result :: "string \<Rightarrow> string \<Rightarrow> database \<Rightarrow> database" where
  "delete_result t i db =
     committed_as db t (filter (\<lambda>r. \<not> has_id i r) (table_rows db t))
       (map (Deleted t) (filter (has_id i) (table_rows db t)))"

definition update_result :: "string \<Rightarrow> row \<Rightarrow> string \<Rightarrow> database \<Rightarrow> database" where
  "update_result t sets i db =
     committed_as db t (map (\<lambda>r. if has_id i r then apply_sets sets r else r) (table_rows db t))
       (map (\<lambda>r. Updated t r (apply_sets sets r)) (filter (has_id i) (table_rows db t)))"


section \<open>Example inputs\<close>

text \<open>
  A database with one host, an environment in which the database works and Kessel cannot
  be reached, and two request bodies.
\<close>

definition example_env :: env where
  "example_env =
     \<lparr>environ = [], uuid4 = ''h2'', datetime_now = (\<lambda>k. 1000 + k),
      connect_raises = None, execute_raises = None, commit_raises = None,
      kessel_outcome = Raised ''connection refused'', column_defaults = (\<lambda>t. [])\<rparr>"

definition example_db :: database where
  "example_db =
     \<lparr>tables =
        [(''inventory.hosts'',
            [[(''id'', Plain (JStr ''h1'')), (''canonical_facts'', Jsonb (JObj [])),
              (''display_name'', Plain (JStr ''web-1'')), (''workspace_id'', Plain JNull),
              (''created_at'', Timestamp 10), (''updated_at'', Timestamp 10)]]),
         (''inventory.host_groups'', []),
         (''rbac.workspaces'', []),
         (''rbac.roles'', [])],
      wal = []\<rparr>"

definition example_req :: request where
  "example_req = \<lparr>json_body = Some (JObj [(''display_name'', JStr ''web-2'')])\<rparr>"

definition empty_req :: request where
  "empty_req = \<lparr>json_body = Some (JObj [])\<rparr>"

definition named_req :: request where
  "named_req = \<lparr>json_body = Some (JObj [(''name'', JStr ''ops''), (''workspace_id'', JStr ''w1'')])\<rparr>"

definition configured_env :: env where
  "configured_env =
     example_env\<lparr>environ := [(''KESSEL_INVENTORY_API_URL'', ''http://kessel:9000''),
                               (''KESSEL_TIMEOUT'', ''30'')]\<rparr>"

text \<open>
  A table declaration with a \<open>version\<close> column that defaults to 1, a database whose host
  has that column, and an environment in which the database cannot be reached.
\<close>

definition versioned_env :: env where
  "versioned_env = example_env\<lparr>column_defaults := (\<lambda>t. [(''version'', Plain (JNum 1))])\<rparr>"

definition versioned_db :: database where
  "versioned_db =
     \<lparr>tables =
        [(''inventory.hosts'',
            [[(''id'', Plain (JStr ''h1'')), (''canonical_facts'', Jsonb (JObj [])),
              (''display_name'', Plain (JStr ''web-1'')), (''workspace_id'', Plain JNull),
              (''created_at'', Timestamp 10), (''updated_at'', Timestamp 10),
              (''version'', Plain (JNum 1))]])],
      wal = []\<rparr>"

definition db_down_env :: env where
  "db_down_env = example_env\<lparr>connect_raises := Some ''connection refused''\<rparr>"

text \<open>An environment in which the call to Kessel raises outside \<open>RequestException\<close>.\<close>

definition leaking_env :: env where
  "leaking_env = example_env\<lparr>kessel_outcome := RaisedOther ''LocationParseError''\<rparr>"

section \<open>Running the building blocks\<close>

lemma io_return_run: "io_return a w = (Inr a, w)"
  by (simp add: io_return_def)

lemma io_raise_run: "io_raise e w = (Inl e, w)"
  by (simp add: io_raise_def)

lemma io_bind_return: "io_bind (io_return a) f = f a"
  by (simp add: io_bind_def io_return_def)

lemma io_bind_raise: "io_bind (io_raise e) f = io_raise e"
  by (simp add: io_bind_def io_raise_def)

lemma io_bind_emit: "io_bind (emit ev) f w = f () (w\<lparr>trace := trace w @ [ev]\<rparr>)"
  by (simp add: io_bind_def emit_def)

lemma emit_run: "emit ev w = (Inr (), w\<lparr>trace := trace w @ [ev]\<rparr>)"
  by (simp add: emit_def)

lemma try_except_run:
  "try_except m catches h w =
     (case m w of
        (Inl e, w') \<Rightarrow> if catches e then h e w' else (Inl e, w')
      | (Inr a, w') \<Rightarrow> (Inr a, w'))"
  by (simp add: try_except_def)

lemma io_bind_Inr: "io_bind (Pair (Inr a)) f = f a"
  by (simp add: io_bind_def)

lemma io_bind_Inl: "io_bind (Pair (Inl e)) f = Pair (Inl e)"
  by (simp add: io_bind_def)

lemmas io_simps = io_return_run io_raise_run emit_run io_bind_return io_bind_raise io_bind_emit
  io_bind_Inr io_bind_Inl try_except_run is_Exception_def if_distribR

lemma map_of_update_same: "map_of (AList.update k v al) k = Some v"
  by (simp add: update_conv')

lemma insert_pipeline:
  "io_bind (get_db_connection env) (\<lambda>conn.
     io_bind (execute env (InsertReturning t r) conn) (\<lambda>cc.
     io_bind (fetchone_dict (fst cc)) (\<lambda>host.
     io_bind (commit env (snd cc)) (\<lambda>u. k host)))) \<lparr>store = db, trace = tr\<rparr> =
   (case insert_commit env t r db of
      Inl (e, evs) \<Rightarrow> (Inl e, \<lparr>store = db, trace = tr @ evs\<rparr>)
    | Inr (host, db') \<Rightarrow>
        k host \<lparr>store = db', trace = tr @ [Connect, Execute (InsertReturning t r), Commit]\<rparr>)"
  by (simp add: io_bind_def io_return_def io_raise_def emit_def get_db_connection_def
        execute_def commit_def fetchone_dict_def run_stmt_def stmt_table_def stmt_params_def
        insert_commit_def Let_def split: option.splits)

lemma delete_pipeline:
  "io_bind (get_db_connection env) (\<lambda>conn.
     io_bind (execute env (DeleteFrom t i) conn) (\<lambda>cc.
     if rowcount (fst cc) = 0 then io_return r
     else io_bind (commit env (snd cc)) (\<lambda>u. k))) \<lparr>store = db, trace = tr\<rparr> =
   (case delete_commit env t i db of
      Raises e evs \<Rightarrow> (Inl e, \<lparr>store = db, trace = tr @ evs\<rparr>)
    | NoRowMatched \<Rightarrow> (Inr r, \<lparr>store = db, trace = tr @ [Connect, Execute (DeleteFrom t i)]\<rparr>)
    | Committed u db' \<Rightarrow>
        k \<lparr>store = db', trace = tr @ [Connect, Execute (DeleteFrom t i), Commit]\<rparr>)"
  by (simp add: io_bind_def io_return_def io_raise_def emit_def get_db_connection_def
        execute_def commit_def run_stmt_def stmt_table_def stmt_params_def
        delete_commit_def Let_def split: option.splits)

lemma connect_run:
  "io_bind (get_db_connection env) f \<lparr>store = db, trace = tr\<rparr> =
   (case connect_raises env of
      Some m \<Rightarrow> (Inl (OperationalError m), \<lparr>store = db, trace = tr\<rparr>)
    | None \<Rightarrow> f \<lparr>working = tables db, pending = []\<rparr> \<lparr>store = db, trace = tr @ [Connect]\<rparr>)"
  by (simp add: io_bind_def io_raise_def get_db_connection_def split: option.splits)

lemma update_pipeline:
  "io_bind (execute env (UpdateReturning t sets i) \<lparr>working = tables db, pending = []\<rparr>) (\<lambda>cc.
     if rowcount (fst cc) = 0 then io_return r
     else io_bind (fetchone_dict (fst cc)) (\<lambda>host.
          io_bind (commit env (snd cc)) (\<lambda>u. k host))) \<lparr>store = db, trace = tr\<rparr> =
   (case update_commit env t sets i db of
      Raises e evs \<Rightarrow> (Inl e, \<lparr>store = db, trace = tr @ evs\<rparr>)
    | NoRowMatched \<Rightarrow> (Inr r, \<lparr>store = db, trace = tr @ [Execute (UpdateReturning t sets i)]\<rparr>)
    | Committed host db' \<Rightarrow>
        k host \<lparr>store = db', trace = tr @ [Execute (UpdateReturning t sets i), Commit]\<rparr>)"
  by (simp add: io_bind_def io_return_def io_raise_def emit_def
        execute_def commit_def fetchone_dict_def run_stmt_def stmt_table_def stmt_params_def
        update_commit_def Let_def split: option.splits list.splits)

lemma report_host_to_kessel_run:
  "io_bind (report_host_to_kessel env host_id ws dn cf) f \<lparr>store = db, trace = tr\<rparr> =
     (case kessel_outcome env of
        RaisedOther m \<Rightarrow>
          (Inl (OtherException m),
           \<lparr>store = db, trace = tr @
              [HttpPost (KESSEL_INVENTORY_URL env @ ''/api/inventory/v1beta2/resources'')
                 (kessel_host_payload host_id ws dn cf) 5 (kessel_outcome env)]\<rparr>)
      | _ \<Rightarrow>
          f () \<lparr>store = db, trace = tr @
             [HttpPost (KESSEL_INVENTORY_URL env @ ''/api/inventory/v1beta2/resources'')
                (kessel_host_payload host_id ws dn cf) 5 (kessel_outcome env),
              kessel_log env host_id]\<rparr>)"
  by (simp add: report_host_to_kessel_def requests_post_def try_except_def io_bind_def
        io_return_def io_raise_def emit_def kessel_log_def split: outcome.splits)

lemma delete_host_from_kessel_run:
  "io_bind (delete_host_from_kessel env host_id) f \<lparr>store = db, trace = tr\<rparr> =
     (case kessel_outcome env of
        RaisedOther m \<Rightarrow>
          (Inl (OtherException m),
           \<lparr>store = db, trace = tr @
              [HttpDelete (KESSEL_INVENTORY_URL env @ ''/api/inventory/v1/resources/hbi/host/'' @ host_id)
                 5 (kessel_outcome env)]\<rparr>)
      | _ \<Rightarrow>
          f () \<lparr>store = db, trace = tr @
             HttpDelete (KESSEL_INVENTORY_URL env @ ''/api/inventory/v1/resources/hbi/host/'' @ host_id)
               5 (kessel_outcome env) # kessel_delete_log env\<rparr>)"
  by (simp add: delete_host_from_kessel_def requests_delete_def try_except_def io_bind_def
        io_return_def io_raise_def emit_def kessel_delete_log_def split: outcome.splits)

section \<open>The handlers in closed form\<close>

lemmas handler_simps = serve_def get_json_def io_simps insert_pipeline delete_pipeline connect_run
  update_pipeline report_host_to_kessel_run delete_host_from_kessel_run failed_def Let_def

lemma create_host_closed:
  "serve (create_host env req) db =
    (case json_body req of
       None \<Rightarrow> failed ''Error creating host: {}'' BadRequest db []
     | Some (JObj kvs) \<Rightarrow>
        if \<not> truthy (dict_get kvs ''display_name'' JNull)
        then (Inr (jsonify_error ''display_name is required'' 400), \<lparr>store = db, trace = []\<rparr>)
        else
          (case insert_commit env ''inventory.hosts'' (host_params env kvs) db of
             Inl (e, evs) \<Rightarrow> failed ''Error creating host: {}'' e db evs
           | Inr (entity, db') \<Rightarrow>
               (Inr (after_push env \<lparr>status = 201, body = Entity entity\<rparr>),
                \<lparr>store = db',
                 trace =
                   [Connect, Execute (InsertReturning ''inventory.hosts'' (host_params env kvs)), Commit,
                    Log INFO ''Created host in database: {} - {}''
                      [AStr (uuid4 env), AJson (dict_get kvs ''display_name'' JNull)],
                    HttpPost (KESSEL_INVENTORY_URL env @ ''/api/inventory/v1beta2/resources'')
                      (kessel_host_payload (uuid4 env) (dict_get kvs ''workspace_id'' JNull)
                         (dict_get kvs ''display_name'' JNull)
                         (dict_get kvs ''canonical_facts'' (JObj []))) 5 (kessel_outcome env),
                    kessel_log env (uuid4 env)]\<rparr>))
     | Some j \<Rightarrow> failed ''Error creating host: {}'' AttributeError db [])"
proof (cases "json_body req")
  case None
  then show ?thesis
    by (simp add: create_host_def create_host_try_def handler_simps)
next
  case (Some j)
  then show ?thesis
    by (cases j)
      (simp_all add: create_host_def create_host_try_def host_params_def handler_simps
         after_push_def kessel_log_def split: sum.splits prod.splits outcome.splits)
qed

lemma create_host_group_closed:
  "serve (create_host_group env req) db =
    (case json_body req of
       None \<Rightarrow> failed ''Error creating host group: {}'' BadRequest db []
     | Some (JObj kvs) \<Rightarrow>
        if \<not> truthy (dict_get kvs ''name'' JNull)
        then (Inr (jsonify_error ''name is required'' 400), \<lparr>store = db, trace = []\<rparr>)
        else
          (case insert_commit env ''inventory.host_groups'' (host_group_params env kvs) db of
             Inl (e, evs) \<Rightarrow> failed ''Error creating host group: {}'' e db evs
           | Inr (entity, db') \<Rightarrow>
               (Inr \<lparr>status = 201, body = Entity entity\<rparr>,
                \<lparr>store = db',
                 trace =
                   [Connect, Execute (InsertReturning ''inventory.host_groups'' (host_group_params env kvs)), Commit,
                    Log INFO ''Created host group: {} - {}''
                      [AStr (uuid4 env), AJson (dict_get kvs ''name'' JNull)]]\<rparr>))
     | Some j \<Rightarrow> failed ''Error creating host group: {}'' AttributeError db [])"
proof (cases "json_body req")
  case None
  then show ?thesis
    by (simp add: create_host_group_def create_host_group_try_def handler_simps)
next
  case (Some j)
  then show ?thesis
    by (cases j)
      (simp_all add: create_host_group_def create_host_group_try_def host_group_params_def handler_simps
         split: sum.splits prod.splits)
qed

lemma create_workspace_closed:
  "serve (create_workspace env req) db =
    (case json_body req of
       None \<Rightarrow> failed ''Error creating workspace: {}'' BadRequest db []
     | Some (JObj kvs) \<Rightarrow>
        if \<not> truthy (dict_get kvs ''name'' JNull)
        then (Inr (jsonify_error ''name is required'' 400), \<lparr>store = db, trace = []\<rparr>)
        else
          (case insert_commit env ''rbac.workspaces'' (workspace_params env kvs) db of
             Inl (e, evs) \<Rightarrow> failed ''Error creating workspace: {}'' e db evs
           | Inr (entity, db') \<Rightarrow>
               (Inr \<lparr>status = 201, body = Entity entity\<rparr>,
                \<lparr>store = db',
                 trace =
                   [Connect, Execute (InsertReturning ''rbac.workspaces'' (workspace_params env kvs)), Commit,
                    Log INFO ''Created workspace: {} - {}''
                      [AStr (uuid4 env), AJson (dict_get kvs ''name'' JNull)],
                    Log INFO ''CDC will propagate this to Kessel via Kafka'' []]\<rparr>))
     | Some j \<Rightarrow> failed ''Error creating workspace: {}'' AttributeError db [])"
proof (cases "json_body req")
  case None
  then show ?thesis
    by (simp add: create_workspace_def create_workspace_try_def handler_simps)
next
  case (Some j)
  then show ?thesis
    by (cases j)
      (simp_all add: create_workspace_def create_workspace_try_def workspace_params_def handler_simps
         split: sum.splits prod.splits)
qed

lemma create_role_closed:
  "serve (create_role env req) db =
    (case json_body req of
       None \<Rightarrow> failed ''Error creating role: {}'' BadRequest db []
     | Some (JObj kvs) \<Rightarrow>
        if \<not> truthy (dict_get kvs ''name'' JNull) \<or> \<not> truthy (dict_get kvs ''workspace_id'' JNull)
        then (Inr (jsonify_error ''name and workspace_id are required'' 400), \<lparr>store = db, trace = []\<rparr>)
        else
          (case insert_commit env ''rbac.roles'' (role_params env kvs) db of
             Inl (e, evs) \<Rightarrow> failed ''Error creating role: {}'' e db evs
           | Inr (entity, db') \<Rightarrow>
               (Inr \<lparr>status = 201, body = Entity entity\<rparr>,
                \<lparr>store = db',
                 trace =
                   [Connect, Execute (InsertReturning ''rbac.roles'' (role_params env kvs)), Commit,
                    Log INFO ''Created role: {} - {} in workspace {}''
                      [AStr (uuid4 env), AJson (dict_get kvs ''name'' JNull),
                       AJson (dict_get kvs ''workspace_id'' JNull)]]\<rparr>))
     | Some j \<Rightarrow> failed ''Error creating role: {}'' AttributeError db [])"
proof (cases "json_body req")
  case None
  then show ?thesis
    by (simp add: create_role_def create_role_try_def handler_simps)
next
  case (Some j)
  then show ?thesis
    by (cases j)
      (simp_all add: create_role_def create_role_try_def role_params_def handler_simps
         split: sum.splits prod.splits)
qed

lemma delete_host_closed:
  "serve (delete_host env host_id) db =
    (case delete_commit env ''inventory.hosts'' host_id db of
       Raises e evs \<Rightarrow> failed ''Error deleting host: {}'' e db evs
     | NoRowMatched \<Rightarrow>
         (Inr (jsonify_error ''Host not found'' 404),
          \<lparr>store = db, trace = [Connect, Execute (DeleteFrom ''inventory.hosts'' host_id)]\<rparr>)
     | Committed u db' \<Rightarrow>
         (Inr (after_push env \<lparr>status = 204, body = Empty\<rparr>),
          \<lparr>store = db',
           trace =
             [Connect, Execute (DeleteFrom ''inventory.hosts'' host_id), Commit,
              Log INFO ''Deleted host: {}'' [AStr host_id],
              HttpDelete (KESSEL_INVENTORY_URL env @ ''/api/inventory/v1/resources/hbi/host/'' @ host_id)
                5 (kessel_outcome env)] @
             kessel_delete_log env\<rparr>))"
  by (simp add: delete_host_def delete_host_try_def handler_simps after_push_def
        kessel_delete_log_def split: txn.splits outcome.splits)

lemma delete_workspace_closed:
  "serve (delete_workspace env workspace_id) db =
    (case delete_commit env ''rbac.workspaces'' workspace_id db of
       Raises e evs \<Rightarrow> failed ''Error deleting workspace: {}'' e db evs
     | NoRowMatched \<Rightarrow>
         (Inr (jsonify_error ''Workspace not found'' 404),
          \<lparr>store = db, trace = [Connect, Execute (DeleteFrom ''rbac.workspaces'' workspace_id)]\<rparr>)
     | Committed u db' \<Rightarrow>
         (Inr \<lparr>status = 204, body = Empty\<rparr>,
          \<lparr>store = db',
           trace =
             [Connect, Execute (DeleteFrom ''rbac.workspaces'' workspace_id), Commit,
              Log INFO ''Deleted workspace: {}'' [AStr workspace_id],
              Log INFO ''CDC will propagate DELETE to Kessel via Kafka'' []]\<rparr>))"
  by (simp add: delete_workspace_def delete_workspace_try_def handler_simps split: txn.splits)

lemma update_host_closed:
  "serve (update_host env host_id req) db =
    (case json_body req of
       None \<Rightarrow> failed ''Error updating host: {}'' BadRequest db []
     | Some j \<Rightarrow>
        (case connect_raises env of
           Some m \<Rightarrow> failed ''Error updating host: {}'' (OperationalError m) db []
         | None \<Rightarrow>
            (case j of
               JObj kvs \<Rightarrow>
                 if host_updates kvs = []
                 then (Inr (jsonify_error ''No fields to update'' 400), \<lparr>store = db, trace = [Connect]\<rparr>)
                 else
                   (case update_commit env ''inventory.hosts''
                           (host_updates kvs @ [(''updated_at'', Timestamp (datetime_now env 0))])
                           host_id db of
                      Raises e evs \<Rightarrow> failed ''Error updating host: {}'' e db (Connect # evs)
                    | NoRowMatched \<Rightarrow>
                        (Inr (jsonify_error ''Host not found'' 404),
                         \<lparr>store = db,
                          trace =
                            [Connect,
                             Execute (UpdateReturning ''inventory.hosts''
                               (host_updates kvs @ [(''updated_at'', Timestamp (datetime_now env 0))])
                               host_id)]\<rparr>)
                    | Committed host db' \<Rightarrow>
                        (Inr \<lparr>status = 200, body = Entity host\<rparr>,
                         \<lparr>store = db',
                          trace =
                            [Connect,
                             Execute (UpdateReturning ''inventory.hosts''
                               (host_updates kvs @ [(''updated_at'', Timestamp (datetime_now env 0))])
                               host_id),
                             Commit,
                             Log INFO ''Updated host: {}'' [AStr host_id]]\<rparr>))
             | JArr xs \<Rightarrow>
                 if List.member xs (JStr ''display_name'') \<or> List.member xs (JStr ''canonical_facts'')
                 then failed ''Error updating host: {}'' TypeError db [Connect]
                 else (Inr (jsonify_error ''No fields to update'' 400), \<lparr>store = db, trace = [Connect]\<rparr>)
             | JStr s \<Rightarrow>
                 if sublist ''display_name'' s \<or> sublist ''canonical_facts'' s
                 then failed ''Error updating host: {}'' TypeError db [Connect]
                 else (Inr (jsonify_error ''No fields to update'' 400), \<lparr>store = db, trace = [Connect]\<rparr>)
             | _ \<Rightarrow> failed ''Error updating host: {}'' TypeError db [Connect])))"
proof (cases "json_body req")
  case None
  then show ?thesis
    by (simp add: update_host_def update_host_try_def handler_simps)
next
  case (Some j)
  then show ?thesis
    by (cases j)
      (simp_all add: update_host_def update_host_try_def handler_simps host_updates_def
         split: option.splits txn.splits)
qed

section \<open>Facts about transactions and handlers\<close>

lemmas result_simps = status_of_def db_after_def trace_of_def failed_def jsonify_error_def

lemma after_push_handled: "handled (kessel_outcome env) \<Longrightarrow> after_push env ok = ok"
  by (cases "kessel_outcome env") (simp_all add: after_push_def)

lemma status_after_push:
  "status (after_push env ok) = (if handled (kessel_outcome env) then status ok else 500)"
  by (cases "kessel_outcome env") (simp_all add: after_push_def)


lemma no_http_kessel_delete_log [simp]: "filter is_http (kessel_delete_log env) = []"
  by (simp add: kessel_delete_log_def split: outcome.splits)

lemma no_commit_kessel_delete_log [simp]: "Commit \<notin> set (kessel_delete_log env)"
  by (simp add: kessel_delete_log_def split: outcome.splits)

lemma insert_commit_Inl:
  "insert_commit env t r db = Inl (e, evs) \<Longrightarrow> Commit \<notin> set evs \<and> http_calls evs = []"
  by (auto simp add: insert_commit_def http_calls_def split: option.splits if_splits)

lemma insert_commit_Inr:
  "insert_commit env t r db = Inr (entity, db') \<Longrightarrow>
   entity = inserted_row env t r \<and>
   table_rows db' t = table_rows db t @ [entity] \<and>
   wal db' = wal db @ [Inserted t entity]"
  by (auto simp add: insert_commit_def table_rows_def map_of_update_same
        split: option.splits if_splits)


lemma delete_commit_Raises:
  "delete_commit env t i db = Raises e evs \<Longrightarrow> Commit \<notin> set evs \<and> http_calls evs = []"
  by (auto simp add: delete_commit_def http_calls_def split: option.splits if_splits)

lemma delete_commit_Committed:
  "delete_commit env t i db = Committed u db' \<Longrightarrow>
   filter (has_id i) (table_rows db t) \<noteq> [] \<and>
   table_rows db' t = filter (\<lambda>r. \<not> has_id i r) (table_rows db t) \<and>
   wal db' = wal db @ map (Deleted t) (filter (has_id i) (table_rows db t))"
  by (auto simp add: delete_commit_def table_rows_def map_of_update_same
        split: option.splits if_splits)









lemma update_commit_Raises:
  "update_commit env t sets i db = Raises e evs \<Longrightarrow> Commit \<notin> set evs \<and> http_calls evs = []"
  by (auto simp add: update_commit_def http_calls_def split: option.splits if_splits list.splits)

lemma update_commit_Committed:
  "update_commit env t sets i db = Committed host db' \<Longrightarrow>
   (\<exists>old rest. filter (has_id i) (table_rows db t) = old # rest \<and> host = apply_sets sets old) \<and>
   table_rows db' t = map (\<lambda>r. if has_id i r then apply_sets sets r else r) (table_rows db t) \<and>
   wal db' = wal db @ map (\<lambda>r. Updated t r (apply_sets sets r)) (filter (has_id i) (table_rows db t))"
  by (auto simp add: update_commit_def table_rows_def map_of_update_same
        split: option.splits if_splits list.splits)


lemma is_http_kessel_log [simp]: "\<not> is_http (kessel_log env host_id)"
  by (simp add: kessel_log_def split: outcome.splits)

lemma create_host_committed_trace:
  "Commit \<in> set (trace_of (serve (create_host env req) db)) \<longrightarrow>
   trace_of (serve (create_host env req) db) =
     [Connect,
      Execute (InsertReturning ''inventory.hosts'' (host_params env (body_fields req))),
      Commit,
      Log INFO ''Created host in database: {} - {}''
        [AStr (uuid4 env), AJson (dict_get (body_fields req) ''display_name'' JNull)],
      host_push env req,
      kessel_log env (uuid4 env)] \<and>
   (handled (kessel_outcome env) \<longrightarrow> status_of (serve (create_host env req) db) = 201)"
  by (auto simp add: create_host_closed result_simps body_fields_def host_push_def
        status_after_push
        dest: insert_commit_Inl
        split: option.splits json.splits sum.splits)

lemma delete_host_committed_trace:
  "Commit \<in> set (trace_of (serve (delete_host env host_id) db)) \<longrightarrow>
   trace_of (serve (delete_host env host_id) db) =
     [Connect, Execute (DeleteFrom ''inventory.hosts'' host_id), Commit,
      Log INFO ''Deleted host: {}'' [AStr host_id],
      host_delete_push env host_id] @ kessel_delete_log env \<and>
   (handled (kessel_outcome env) \<longrightarrow> status_of (serve (delete_host env host_id) db) = 204)"
  by (auto simp add: delete_host_closed result_simps host_delete_push_def status_after_push
        dest: delete_commit_Raises
        split: txn.splits)

lemma create_host_not_committed:
  "Commit \<notin> set (trace_of (serve (create_host env req) db)) \<longrightarrow>
   http_calls (trace_of (serve (create_host env req) db)) = []"
  by (auto simp add: create_host_closed result_simps http_calls_def
        dest: insert_commit_Inl
        split: option.splits json.splits sum.splits)

lemma delete_host_not_committed:
  "Commit \<notin> set (trace_of (serve (delete_host env host_id) db)) \<longrightarrow>
   http_calls (trace_of (serve (delete_host env host_id) db)) = []"
  by (auto simp add: delete_host_closed result_simps http_calls_def
        dest: delete_commit_Raises
        split: txn.splits)

lemma create_host_http_calls:
  "http_calls (trace_of (serve (create_host env req) db)) =
     (if Commit \<in> set (trace_of (serve (create_host env req) db)) then [host_push env req] else [])"
  using create_host_committed_trace [of env req db] create_host_not_committed [of env req db]
  by (auto simp add: http_calls_def host_push_def)

lemma delete_host_http_calls:
  "http_calls (trace_of (serve (delete_host env host_id) db)) =
     (if Commit \<in> set (trace_of (serve (delete_host env host_id) db))
      then [host_delete_push env host_id] else [])"
  using delete_host_committed_trace [of env host_id db] delete_host_not_committed [of env host_id db]
  by (auto simp add: http_calls_def host_delete_push_def)

lemma update_host_http_calls: "http_calls (trace_of (serve (update_host env host_id req) db)) = []"
  by (auto simp add: update_host_closed result_simps http_calls_def
        dest: update_commit_Raises
        split: option.splits json.splits txn.splits)

lemma create_host_group_http_calls: "http_calls (trace_of (serve (create_host_group env req) db)) = []"
  by (auto simp add: create_host_group_closed result_simps http_calls_def
        dest: insert_commit_Inl
        split: option.splits json.splits sum.splits)

lemma create_workspace_http_calls: "http_calls (trace_of (serve (create_workspace env req) db)) = []"
  by (auto simp add: create_workspace_closed result_simps http_calls_def
        dest: insert_commit_Inl
        split: option.splits json.splits sum.splits)

lemma create_role_http_calls: "http_calls (trace_of (serve (create_role env req) db)) = []"
  by (auto simp add: create_role_closed result_simps http_calls_def
        dest: insert_commit_Inl
        split: option.splits json.splits sum.splits)

lemma delete_workspace_http_calls:
  "http_calls (trace_of (serve (delete_workspace env workspace_id) db)) = []"
  by (auto simp add: delete_workspace_closed result_simps http_calls_def
        dest: delete_commit_Raises
        split: txn.splits)

lemma map_of_filter_key:
  "map_of (filter (\<lambda>cv. P (fst cv)) xs) c = (if P c then map_of xs c else None)"
  by (induction xs) auto

lemma map_of_inserted_row:
  "map_of r c = None \<Longrightarrow> map_of (inserted_row env t r) c = map_of (column_defaults env t) c"
  by (simp add: inserted_row_def map_of_append map_add_def
        map_of_filter_key [where P = "\<lambda>k. map_of r k = None"])

lemma map_of_apply_sets:
  "c \<notin> fst ` set sets \<Longrightarrow> map_of (apply_sets sets r) c = map_of r c"
  unfolding apply_sets_def
  by (induction sets arbitrary: r) (auto simp add: update_conv')

lemma host_updates_keys:
  "fst ` set (host_updates kvs) \<subseteq> {''display_name'', ''canonical_facts''}"
  by (auto simp add: host_updates_def split: option.splits)

lemma create_host_entity_version:
  "status_of (serve (create_host env req) db) = 201 \<longrightarrow>
   map_of (entity_of (serve (create_host env req) db)) ''version'' =
     map_of (column_defaults env ''inventory.hosts'') ''version''"
proof (cases "handled (kessel_outcome env)")
  case True
  then show ?thesis
    by (auto simp add: create_host_closed result_simps entity_of_def host_params_def
          map_of_inserted_row after_push_handled
          dest!: insert_commit_Inr
          split: option.splits json.splits sum.splits)
next
  case False
  then show ?thesis
    by (auto simp add: create_host_closed result_simps status_after_push
          split: option.splits json.splits sum.splits)
qed

lemma create_workspace_entity_version:
  "status_of (serve (create_workspace env req) db) = 201 \<longrightarrow>
   map_of (entity_of (serve (create_workspace env req) db)) ''version'' =
     map_of (column_defaults env ''rbac.workspaces'') ''version''"
  by (auto simp add: create_workspace_closed result_simps entity_of_def workspace_params_def
        map_of_inserted_row
        dest!: insert_commit_Inr
        split: option.splits json.splits sum.splits)

lemma update_commit_entity:
  assumes "update_commit env t (ups @ [(''updated_at'', ts)]) i db = Committed host db'"
    and "fst ` set ups \<subseteq> {''display_name'', ''canonical_facts''}"
  shows "\<exists>old \<in> set (table_rows db t). has_id i old \<and>
           (\<forall>c. c \<notin> {''display_name'', ''canonical_facts'', ''updated_at''} \<longrightarrow>
                map_of host c = map_of old c)"
proof -
  from update_commit_Committed [OF assms(1)]
  obtain old rest where hit: "filter (has_id i) (table_rows db t) = old # rest"
    and host: "host = apply_sets (ups @ [(''updated_at'', ts)]) old"
    by blast
  from hit have "old \<in> set (filter (has_id i) (table_rows db t))"
    by simp
  then have old: "old \<in> set (table_rows db t)" "has_id i old"
    by simp_all
  have "map_of host c = map_of old c"
    if "c \<notin> {''display_name'', ''canonical_facts'', ''updated_at''}" for c
  proof -
    from that assms(2) have "c \<notin> fst ` set (ups @ [(''updated_at'', ts)])"
      by auto
    then show ?thesis
      unfolding host by (rule map_of_apply_sets)
  qed
  with old show ?thesis
    by blast
qed

lemma update_host_entity:
  "status_of (serve (update_host env host_id req) db) = 200 \<longrightarrow>
   (\<exists>old \<in> set (table_rows db ''inventory.hosts''). has_id host_id old \<and>
      (\<forall>c. c \<notin> {''display_name'', ''canonical_facts'', ''updated_at''} \<longrightarrow>
           map_of (entity_of (serve (update_host env host_id req) db)) c = map_of old c))"
proof (cases "json_body req")
  case None
  then show ?thesis
    by (simp add: update_host_closed result_simps)
next
  case (Some j)
  show ?thesis
  proof (cases "connect_raises env")
    case (Some m)
    with \<open>json_body req = Some j\<close> show ?thesis
      by (simp add: update_host_closed result_simps)
  next
    case None
    show ?thesis
    proof (cases j)
      case (JObj kvs)
      show ?thesis
      proof (cases "update_commit env ''inventory.hosts''
                      (host_updates kvs @ [(''updated_at'', Timestamp (datetime_now env 0))])
                      host_id db")
        case (Committed host db')
        from update_commit_entity [OF Committed host_updates_keys]
        show ?thesis
          using \<open>json_body req = Some j\<close> None JObj Committed
          by (simp add: update_host_closed result_simps entity_of_def)
      qed (use \<open>json_body req = Some j\<close> None JObj in
            \<open>simp_all add: update_host_closed result_simps\<close>)
    qed (use \<open>json_body req = Some j\<close> None in
          \<open>simp_all add: update_host_closed result_simps\<close>)
  qed
qed

lemma delete_commit_no_row:
  "connect_raises env = None \<Longrightarrow> execute_raises env = None \<Longrightarrow>
   map_of (tables db) t = Some rows \<Longrightarrow> filter (has_id i) rows = [] \<Longrightarrow>
   delete_commit env t i db = NoRowMatched"
  by (simp add: delete_commit_def)

lemma update_commit_no_row:
  "execute_raises env = None \<Longrightarrow> list_all adaptable_param (map snd sets) \<Longrightarrow>
   map_of (tables db) t = Some rows \<Longrightarrow> filter (has_id i) rows = [] \<Longrightarrow>
   update_commit env t sets i db = NoRowMatched"
  by (simp add: update_commit_def)

lemma delete_commit_missing_target:
  "filter (has_id i) (table_rows db t) = [] \<Longrightarrow>
   delete_commit env t i db = NoRowMatched \<or>
   (\<exists>e evs. delete_commit env t i db = Raises e evs \<and> Commit \<notin> set evs \<and> http_calls evs = [])"
  by (auto simp add: delete_commit_def table_rows_def http_calls_def split: option.splits)

lemma update_commit_missing_target:
  "filter (has_id i) (table_rows db t) = [] \<Longrightarrow>
   update_commit env t sets i db = NoRowMatched \<or>
   (\<exists>e evs. update_commit env t sets i db = Raises e evs \<and> Commit \<notin> set evs \<and> http_calls evs = [])"
  by (auto simp add: update_commit_def table_rows_def http_calls_def split: option.splits)

lemma delete_host_missing_target:
  "filter (has_id host_id) (table_rows db ''inventory.hosts'') = [] \<Longrightarrow>
   left_unchanged db (serve (delete_host env host_id) db)"
  using delete_commit_missing_target [of host_id db "''inventory.hosts''" env]
  by (auto simp add: delete_host_closed left_unchanged_def result_simps http_calls_def)

lemma delete_workspace_missing_target:
  "filter (has_id workspace_id) (table_rows db ''rbac.workspaces'') = [] \<Longrightarrow>
   left_unchanged db (serve (delete_workspace env workspace_id) db)"
  using delete_commit_missing_target [of workspace_id db "''rbac.workspaces''" env]
  by (auto simp add: delete_workspace_closed left_unchanged_def result_simps http_calls_def)

lemma update_host_missing_target:
  "filter (has_id host_id) (table_rows db ''inventory.hosts'') = [] \<Longrightarrow>
   left_unchanged db (serve (update_host env host_id req) db)"
  by (auto simp add: left_unchanged_def update_host_closed result_simps http_calls_def
        dest: update_commit_Raises update_commit_Committed
        split: option.splits json.splits txn.splits)

lemma delete_host_404:
  "connect_raises env = None \<and> execute_raises env = None \<and>
   map_of (tables db) ''inventory.hosts'' = Some rows \<and> filter (has_id host_id) rows = [] \<longrightarrow>
     serve (delete_host env host_id) db =
       (Inr \<lparr>status = 404, body = ErrorMsg ''Host not found''\<rparr>,
        \<lparr>store = db, trace = [Connect, Execute (DeleteFrom ''inventory.hosts'' host_id)]\<rparr>)"
  by (simp add: delete_host_closed delete_commit_no_row jsonify_error_def)

lemma delete_workspace_404:
  "connect_raises env = None \<and> execute_raises env = None \<and>
   map_of (tables db) ''rbac.workspaces'' = Some rows \<and> filter (has_id workspace_id) rows = [] \<longrightarrow>
     serve (delete_workspace env workspace_id) db =
       (Inr \<lparr>status = 404, body = ErrorMsg ''Workspace not found''\<rparr>,
        \<lparr>store = db, trace = [Connect, Execute (DeleteFrom ''rbac.workspaces'' workspace_id)]\<rparr>)"
  by (simp add: delete_workspace_closed delete_commit_no_row jsonify_error_def)

lemma update_host_404:
  "connect_raises env = None \<and> execute_raises env = None \<and>
   map_of (tables db) ''inventory.hosts'' = Some rows \<and> filter (has_id host_id) rows = [] \<and>
   json_body req = Some (JObj kvs) \<and> host_updates kvs \<noteq> [] \<and>
   list_all adaptable_param (map snd (host_updates kvs)) \<longrightarrow>
     serve (update_host env host_id req) db =
       (Inr \<lparr>status = 404, body = ErrorMsg ''Host not found''\<rparr>,
        \<lparr>store = db,
         trace = [Connect,
                  Execute (UpdateReturning ''inventory.hosts''
                    (host_updates kvs @ [(''updated_at'', Timestamp (datetime_now env 0))])
                    host_id)]\<rparr>)"
  by (simp add: update_host_closed update_commit_no_row jsonify_error_def)

lemma is_execute_kessel_log [simp]: "\<not> is_execute (kessel_log env host_id)"
  by (simp add: kessel_log_def split: outcome.splits)

lemma is_execute_kessel_delete_log [simp]: "filter is_execute (kessel_delete_log env) = []"
  by (simp add: kessel_delete_log_def split: outcome.splits)








section \<open>Evaluating the examples\<close>

lemmas example_simps = example_env_def example_db_def example_req_def empty_req_def
  insert_commit_def delete_commit_def update_commit_def host_params_def host_group_params_def
  workspace_params_def role_params_def host_updates_def dict_get_def inserted_row_def
  kessel_log_def kessel_host_payload_def KESSEL_INVENTORY_URL_def getenv_def failed_def
  jsonify_error_def has_id_def apply_sets_def status_of_def db_after_def trace_of_def
  http_calls_def table_rows_def named_req_def configured_env_def body_fields_def
  host_push_def host_delete_push_def entity_of_def versioned_env_def versioned_db_def
  db_down_env_def after_push_def kessel_delete_log_def leaking_env_def committed_as_def
  insert_result_def delete_result_def update_result_def

lemma example_create_host_facts:
  "Commit \<in> set (trace_of (serve (create_host example_env example_req) example_db)) \<and>
   status_of (serve (create_host example_env example_req) example_db) = 201"
  by (simp add: create_host_closed example_simps)

lemma example_delete_host_facts:
  "Commit \<in> set (trace_of (serve (delete_host example_env ''h1'') example_db)) \<and>
   status_of (serve (delete_host example_env ''h1'') example_db) = 204"
  by (simp add: delete_host_closed example_simps)

lemma example_env_kessel: "kessel_outcome example_env = Raised ''connection refused''"
  by (simp add: example_env_def)

lemma example_create_host_trace:
  "trace_of (serve (create_host example_env example_req) example_db) =
     [Connect,
      Execute (InsertReturning ''inventory.hosts''
        [(''id'', Plain (JStr ''h2'')), (''canonical_facts'', Jsonb (JObj [])),
         (''display_name'', Plain (JStr ''web-2'')), (''workspace_id'', Plain JNull),
         (''created_at'', Timestamp 1000), (''updated_at'', Timestamp 1001)]),
      Commit,
      Log INFO ''Created host in database: {} - {}'' [AStr ''h2'', AJson (JStr ''web-2'')],
      HttpPost ''http://kessel-inventory-api:8000/api/inventory/v1beta2/resources''
        (JObj [(''resource_type'', JStr ''hbi/host''),
               (''resource_id'', JStr ''h2''),
               (''workspace_id'', JStr ''00000000-0000-0000-0000-000000000001''),
               (''metadata'', JObj [(''display_name'', JStr ''web-2''), (''canonical_facts'', JObj [])])])
        5 (Raised ''connection refused''),
      Log WARNING ''Failed to report to Kessel API (will sync via CDC): {}''
        [AExn (RequestException ''connection refused'')]]"
  by (simp add: create_host_closed example_simps)

lemma example_delete_host_trace:
  "trace_of (serve (delete_host example_env ''h1'') example_db) =
     [Connect, Execute (DeleteFrom ''inventory.hosts'' ''h1''), Commit,
      Log INFO ''Deleted host: {}'' [AStr ''h1''],
      HttpDelete ''http://kessel-inventory-api:8000/api/inventory/v1/resources/hbi/host/h1'' 5
        (Raised ''connection refused''),
      Log WARNING ''Failed to delete from Kessel API: {}''
        [AExn (RequestException ''connection refused'')]]"
  by (simp add: delete_host_closed example_simps)




section \<open>Validation of required fields\<close>

text \<open>
  Claim C7. A create request whose JSON object lacks a required field is answered with
  status 400 and the handler's error message, and nothing is written: \<open>create_host\<close> when
  \<open>display_name\<close> is missing, \<open>create_workspace\<close> when \<open>name\<close> is missing, \<open>create_role\<close>
  when \<open>name\<close> or \<open>workspace_id\<close> is missing. The database is as before and the trace is
  empty: the check comes before the connection is opened, so the answer is the same
  whatever state the database is in.
\<close>

theorem missing_required_field_rejected:
  "(json_body req = Some (JObj kvs) \<and> map_of kvs ''display_name'' = None \<longrightarrow>
      serve (create_host env req) db =
        (Inr \<lparr>status = 400, body = ErrorMsg ''display_name is required''\<rparr>,
         \<lparr>store = db, trace = []\<rparr>)) \<and>
   (json_body req = Some (JObj kvs) \<and> map_of kvs ''name'' = None \<longrightarrow>
      serve (create_workspace env req) db =
        (Inr \<lparr>status = 400, body = ErrorMsg ''name is required''\<rparr>,
         \<lparr>store = db, trace = []\<rparr>)) \<and>
   (json_body req = Some (JObj kvs) \<and>
      (map_of kvs ''name'' = None \<or> map_of kvs ''workspace_id'' = None) \<longrightarrow>
      serve (create_role env req) db =
        (Inr \<lparr>status = 400, body = ErrorMsg ''name and workspace_id are required''\<rparr>,
         \<lparr>store = db, trace = []\<rparr>))"
  by (auto simp add: create_host_closed create_workspace_closed create_role_closed
        dict_get_def jsonify_error_def)

theorem missing_required_field_rejected_witness:
  "json_body empty_req = Some (JObj []) \<and>
   map_of ([] :: (string \<times> json) list) ''display_name'' = None \<and>
   status_of (serve (create_host example_env empty_req) example_db) = 400 \<and>
   db_after (serve (create_host example_env empty_req) example_db) = example_db \<and>
   status_of (serve (create_workspace example_env empty_req) example_db) = 400 \<and>
   db_after (serve (create_workspace example_env empty_req) example_db) = example_db \<and>
   status_of (serve (create_role example_env empty_req) example_db) = 400 \<and>
   db_after (serve (create_role example_env empty_req) example_db) = example_db"
  using missing_required_field_rejected [of empty_req "[]" example_env example_db]
  by (simp add: empty_req_def status_of_def db_after_def)

section \<open>Failures of the direct push\<close>



section \<open>Atomicity of the local write\<close>




section \<open>The direct push and the response\<close>

text \<open>
  Claim C2, as stated, fails: the handler does not answer before the remote call has
  ended. With Kessel unreachable, \<open>create_host\<close> answers 201, and by then the call has been
  made and has raised, and its failure has been logged: the call is synchronous.
\<close>

theorem response_waits_for_push_counterexample:
  "status_of (serve (create_host example_env example_req) example_db) = 201 \<and>
   drop 2 (trace_of (serve (create_host example_env example_req) example_db)) =
     [Commit,
      Log INFO ''Created host in database: {} - {}'' [AStr ''h2'', AJson (JStr ''web-2'')],
      HttpPost ''http://kessel-inventory-api:8000/api/inventory/v1beta2/resources''
        (JObj [(''resource_type'', JStr ''hbi/host''),
               (''resource_id'', JStr ''h2''),
               (''workspace_id'', JStr ''00000000-0000-0000-0000-000000000001''),
               (''metadata'', JObj [(''display_name'', JStr ''web-2''), (''canonical_facts'', JObj [])])])
        5 (Raised ''connection refused''),
      Log WARNING ''Failed to report to Kessel API (will sync via CDC): {}''
        [AExn (RequestException ''connection refused'')]]"
  using example_create_host_facts by (simp add: example_create_host_trace)

text \<open>
  Claim C2, amended. A \<open>create_host\<close> or \<open>delete_host\<close> that commits makes its call to
  Kessel, with a timeout of 5 seconds, after the commit and before it returns: the call and
  the log record of how it ended are the last events before the handler returns, so the
  response is produced when the call has ended, with a response or with an exception. When
  the call ended with a response of any status or with a \<open>RequestException\<close>, the handler
  answers 201 (204 for the delete), also when Kessel cannot be reached.
\<close>

theorem push_ends_before_response:
  "(Commit \<in> set (trace_of (serve (create_host env req) db)) \<longrightarrow>
      trace_of (serve (create_host env req) db) =
        [Connect,
         Execute (InsertReturning ''inventory.hosts'' (host_params env (body_fields req))),
         Commit,
         Log INFO ''Created host in database: {} - {}''
           [AStr (uuid4 env), AJson (dict_get (body_fields req) ''display_name'' JNull)],
         host_push env req,
         kessel_log env (uuid4 env)] \<and>
      (handled (kessel_outcome env) \<longrightarrow> status_of (serve (create_host env req) db) = 201)) \<and>
   (Commit \<in> set (trace_of (serve (delete_host env host_id) db)) \<longrightarrow>
      trace_of (serve (delete_host env host_id) db) =
        [Connect, Execute (DeleteFrom ''inventory.hosts'' host_id), Commit,
         Log INFO ''Deleted host: {}'' [AStr host_id],
         host_delete_push env host_id] @ kessel_delete_log env \<and>
      (handled (kessel_outcome env) \<longrightarrow> status_of (serve (delete_host env host_id) db) = 204)) \<and>
   timeout_of (host_push env req) = Some 5 \<and>
   timeout_of (host_delete_push env host_id) = Some 5"
  using create_host_committed_trace [of env req db] delete_host_committed_trace [of env host_id db]
  by (simp add: host_push_def host_delete_push_def)

theorem push_ends_before_response_witness:
  "handled (kessel_outcome example_env) \<and>
   Commit \<in> set (trace_of (serve (create_host example_env example_req) example_db)) \<and>
   status_of (serve (create_host example_env example_req) example_db) = 201 \<and>
   last (trace_of (serve (create_host example_env example_req) example_db)) =
     kessel_log example_env ''h2'' \<and>
   Commit \<in> set (trace_of (serve (delete_host example_env ''h1'') example_db)) \<and>
   status_of (serve (delete_host example_env ''h1'') example_db) = 204 \<and>
   trace_of (serve (delete_host example_env ''h1'') example_db) ! 4 =
     host_delete_push example_env ''h1''"
  using push_ends_before_response [of example_env example_req example_db "''h1''"]
    example_create_host_facts example_delete_host_facts
  by (simp add: example_env_def)

section \<open>Which handlers push\<close>

text \<open>
  Claim C5, as stated, fails: creating a workspace, a role or a host group commits and
  answers 201 without any call to the remote service.
\<close>

theorem push_for_every_entity_type_counterexample:
  "status_of (serve (create_workspace example_env named_req) example_db) = 201 \<and>
   http_calls (trace_of (serve (create_workspace example_env named_req) example_db)) = [] \<and>
   status_of (serve (create_role example_env named_req) example_db) = 201 \<and>
   http_calls (trace_of (serve (create_role example_env named_req) example_db)) = [] \<and>
   status_of (serve (create_host_group example_env named_req) example_db) = 201 \<and>
   http_calls (trace_of (serve (create_host_group example_env named_req) example_db)) = []"
  by (simp add: create_workspace_closed create_role_closed create_host_group_closed example_simps)

text \<open>
  Claim C5, amended. Only \<open>create_host\<close> and \<open>delete_host\<close> push directly: each makes
  exactly one call to Kessel when it has committed, and none otherwise. \<open>update_host\<close>,
  \<open>create_host_group\<close>, \<open>create_workspace\<close>, \<open>delete_workspace\<close> and \<open>create_role\<close> never call
  the remote service; their changes reach it through change-data-capture only.
\<close>

theorem direct_push_only_for_hosts:
  "http_calls (trace_of (serve (update_host env host_id req) db)) = [] \<and>
   http_calls (trace_of (serve (create_host_group env req) db)) = [] \<and>
   http_calls (trace_of (serve (create_workspace env req) db)) = [] \<and>
   http_calls (trace_of (serve (delete_workspace env workspace_id) db)) = [] \<and>
   http_calls (trace_of (serve (create_role env req) db)) = [] \<and>
   http_calls (trace_of (serve (create_host env req) db)) =
     (if Commit \<in> set (trace_of (serve (create_host env req) db))
      then [host_push env req] else []) \<and>
   http_calls (trace_of (serve (delete_host env host_id) db)) =
     (if Commit \<in> set (trace_of (serve (delete_host env host_id) db))
      then [host_delete_push env host_id] else [])"
  using create_host_http_calls [of env req db] delete_host_http_calls [of env host_id db]
  by (simp add: update_host_http_calls create_host_group_http_calls create_workspace_http_calls
        delete_workspace_http_calls create_role_http_calls)

theorem direct_push_only_for_hosts_witness:
  "http_calls (trace_of (serve (create_host example_env example_req) example_db)) =
     [host_push example_env example_req] \<and>
   http_calls (trace_of (serve (delete_host example_env ''h1'') example_db)) =
     [host_delete_push example_env ''h1''] \<and>
   http_calls (trace_of (serve (update_host example_env ''h1'' example_req) example_db)) = []"
  using direct_push_only_for_hosts [of example_env "''h1''" example_req example_db]
    example_create_host_facts example_delete_host_facts
  by simp

section \<open>Timeout and retry of the direct push\<close>

text \<open>
  Claim C9, as stated, fails in one part: the timeout is not configurable. With the
  environment naming another Kessel URL and a timeout of 30, the calls are still made with
  a timeout of 5 seconds.
\<close>

theorem push_timeout_configurable_counterexample:
  "map timeout_of (http_calls (trace_of (serve (create_host configured_env example_req) example_db))) =
     [Some 5] \<and>
   map timeout_of (http_calls (trace_of (serve (delete_host configured_env ''h1'') example_db))) =
     [Some 5]"
  by (simp add: create_host_closed delete_host_closed example_simps)

text \<open>
  Claim C9, amended. Every direct push is made with a timeout of 5 seconds, a constant of
  the code that no setting changes, and a handler makes at most one call per request: it
  does not retry after a failure or a timeout.
\<close>

theorem push_timeout_fixed_and_no_retry:
  "(\<forall>ev \<in> set (http_calls (trace_of (serve (create_host env req) db))). timeout_of ev = Some 5) \<and>
   length (http_calls (trace_of (serve (create_host env req) db))) \<le> 1 \<and>
   (\<forall>ev \<in> set (http_calls (trace_of (serve (delete_host env host_id) db))). timeout_of ev = Some 5) \<and>
   length (http_calls (trace_of (serve (delete_host env host_id) db))) \<le> 1"
  by (simp add: create_host_http_calls delete_host_http_calls host_push_def host_delete_push_def)

theorem push_timeout_fixed_and_no_retry_witness:
  "kessel_outcome example_env = Raised ''connection refused'' \<and>
   length (http_calls (trace_of (serve (create_host example_env example_req) example_db))) = 1 \<and>
   timeout_of (hd (http_calls (trace_of (serve (create_host example_env example_req) example_db)))) =
     Some 5 \<and>
   length (http_calls (trace_of (serve (delete_host example_env ''h1'') example_db))) = 1 \<and>
   timeout_of (hd (http_calls (trace_of (serve (delete_host example_env ''h1'') example_db)))) =
     Some 5"
  using push_timeout_fixed_and_no_retry [of example_env example_req example_db "''h1''"]
    example_env_kessel
  by (simp add: example_create_host_trace example_delete_host_trace http_calls_def)

section \<open>What a push carries\<close>

text \<open>
  Claim C3, as stated, fails in the part the services decide: a push carries no version and
  no other idempotency key. The POST of \<open>create_host\<close> sends the resource type, the host id,
  the workspace id and the metadata; the DELETE of \<open>delete_host\<close> sends the host id in its
  URL and nothing else.
\<close>

theorem push_carries_version_counterexample:
  "http_calls (trace_of (serve (create_host example_env example_req) example_db)) =
     [HttpPost ''http://kessel-inventory-api:8000/api/inventory/v1beta2/resources''
        (JObj [(''resource_type'', JStr ''hbi/host''),
               (''resource_id'', JStr ''h2''),
               (''workspace_id'', JStr ''00000000-0000-0000-0000-000000000001''),
               (''metadata'', JObj [(''display_name'', JStr ''web-2''), (''canonical_facts'', JObj [])])])
        5 (Raised ''connection refused'')] \<and>
   http_calls (trace_of (serve (delete_host example_env ''h1'') example_db)) =
     [HttpDelete ''http://kessel-inventory-api:8000/api/inventory/v1/resources/hbi/host/h1'' 5
        (Raised ''connection refused'')]"
  by (simp add: example_create_host_trace example_delete_host_trace http_calls_def)

text \<open>
  Claim C3, amended. Every push of \<open>create_host\<close> is a POST whose JSON object has exactly
  the keys \<open>resource_type\<close>, \<open>resource_id\<close>, \<open>workspace_id\<close> and \<open>metadata\<close> (the display name
  and the canonical facts), and every push of \<open>delete_host\<close> is a DELETE of the host's URL
  without a body: no push carries a version. What a repeated push does to the remote graph
  is decided by the remote service alone.
\<close>

theorem push_has_no_idempotency_key:
  "(\<forall>ev \<in> set (http_calls (trace_of (serve (create_host env req) db))).
      payload_keys ev = [''resource_type'', ''resource_id'', ''workspace_id'', ''metadata''] \<and>
      (\<exists>ws dn cf.
         ev = HttpPost (KESSEL_INVENTORY_URL env @ ''/api/inventory/v1beta2/resources'')
                (JObj [(''resource_type'', JStr ''hbi/host''),
                       (''resource_id'', JStr (uuid4 env)),
                       (''workspace_id'', ws),
                       (''metadata'', JObj [(''display_name'', dn), (''canonical_facts'', cf)])])
                5 (kessel_outcome env))) \<and>
   (\<forall>ev \<in> set (http_calls (trace_of (serve (delete_host env host_id) db))).
      payload_keys ev = [] \<and>
      ev = HttpDelete (KESSEL_INVENTORY_URL env @ ''/api/inventory/v1/resources/hbi/host/'' @ host_id)
             5 (kessel_outcome env))"
  by (simp add: create_host_http_calls delete_host_http_calls host_push_def host_delete_push_def
        kessel_host_payload_def)

theorem push_has_no_idempotency_key_witness:
  "length (http_calls (trace_of (serve (create_host example_env example_req) example_db))) = 1 \<and>
   payload_keys (hd (http_calls (trace_of (serve (create_host example_env example_req) example_db)))) =
     [''resource_type'', ''resource_id'', ''workspace_id'', ''metadata''] \<and>
   length (http_calls (trace_of (serve (delete_host example_env ''h1'') example_db))) = 1 \<and>
   payload_keys (hd (http_calls (trace_of (serve (delete_host example_env ''h1'') example_db)))) = []"
  using push_has_no_idempotency_key [of example_env example_req example_db "''h1''"]
  by (simp add: example_create_host_trace example_delete_host_trace http_calls_def)

section \<open>Versions\<close>

text \<open>
  Claim C4, as stated, fails: the handlers assign no version. With the columns the INSERT
  names, the host that \<open>create_host\<close> returns has no \<open>version\<close>; and where the table has a
  \<open>version\<close> column and the stored host has version 1, \<open>update_host\<close> returns version 1,
  not 2.
\<close>

theorem version_incremented_counterexample:
  "status_of (serve (create_host example_env example_req) example_db) = 201 \<and>
   map_of (entity_of (serve (create_host example_env example_req) example_db)) ''version'' = None \<and>
   map_of (hd (table_rows versioned_db ''inventory.hosts'')) ''version'' = Some (Plain (JNum 1)) \<and>
   status_of (serve (update_host versioned_env ''h1'' example_req) versioned_db) = 200 \<and>
   map_of (entity_of (serve (update_host versioned_env ''h1'' example_req) versioned_db)) ''version'' =
     Some (Plain (JNum 1))"
  by (simp add: create_host_closed update_host_closed example_simps)

text \<open>
  Claim C4, amended. The handlers neither assign nor increment a version. The entity that
  a successful \<open>create_host\<close> or \<open>create_workspace\<close> returns has as \<open>version\<close> whatever default
  the table declares for such a column, none if it declares none; the entity that a
  successful \<open>update_host\<close> returns is a stored row of that host in which only
  \<open>display_name\<close>, \<open>canonical_facts\<close> and \<open>updated_at\<close> can differ: every other column, a
  \<open>version\<close> included, is as it was stored.
\<close>

theorem version_never_assigned:
  "(status_of (serve (create_host env req) db) = 201 \<longrightarrow>
      map_of (entity_of (serve (create_host env req) db)) ''version'' =
        map_of (column_defaults env ''inventory.hosts'') ''version'') \<and>
   (status_of (serve (create_workspace env req) db) = 201 \<longrightarrow>
      map_of (entity_of (serve (create_workspace env req) db)) ''version'' =
        map_of (column_defaults env ''rbac.workspaces'') ''version'') \<and>
   (status_of (serve (update_host env host_id req) db) = 200 \<longrightarrow>
      (\<exists>old \<in> set (table_rows db ''inventory.hosts''). has_id host_id old \<and>
         (\<forall>c. c \<notin> {''display_name'', ''canonical_facts'', ''updated_at''} \<longrightarrow>
              map_of (entity_of (serve (update_host env host_id req) db)) c = map_of old c)))"
  using create_host_entity_version [of env req db] create_workspace_entity_version [of env req db]
    update_host_entity [of env host_id req db]
  by blast

theorem version_never_assigned_witness:
  "status_of (serve (create_host versioned_env example_req) versioned_db) = 201 \<and>
   map_of (entity_of (serve (create_host versioned_env example_req) versioned_db)) ''version'' =
     Some (Plain (JNum 1)) \<and>
   status_of (serve (update_host versioned_env ''h1'' example_req) versioned_db) = 200"
  using version_never_assigned [of versioned_env example_req versioned_db "''h1''"]
  by (simp add: create_host_closed update_host_closed example_simps)

section \<open>Targets that do not exist\<close>

text \<open>
  Claim C8, as stated, fails: an update of a host that does not exist is answered with 400,
  not 404, when the body names no field to update, because the body is checked before the
  UPDATE is built.
\<close>

theorem missing_target_gives_404_counterexample:
  "filter (has_id ''h9'') (table_rows example_db ''inventory.hosts'') = [] \<and>
   fst (serve (update_host example_env ''h9'' empty_req) example_db) =
     Inr \<lparr>status = 400, body = ErrorMsg ''No fields to update''\<rparr>"
  by (simp add: update_host_closed example_simps)

text \<open>
  Claim C8, amended. When the connection opens, the statement executes and no row has the
  id, \<open>delete_host\<close>, \<open>delete_workspace\<close> and \<open>update_host\<close> answer 404 with their error
  body; for \<open>update_host\<close> the body must be an object that names \<open>display_name\<close> or
  \<open>canonical_facts\<close>, with values the driver can adapt. Whatever else happens to a request
  whose target does not exist (400 for a body without fields, 500 when the database
  raises), it is answered with an error status, nothing is committed and the database is as
  before.
\<close>

theorem missing_target_rejected:
  "(connect_raises env = None \<and> execute_raises env = None \<and>
    map_of (tables db) ''inventory.hosts'' = Some rows \<and> filter (has_id host_id) rows = [] \<longrightarrow>
      serve (delete_host env host_id) db =
        (Inr \<lparr>status = 404, body = ErrorMsg ''Host not found''\<rparr>,
         \<lparr>store = db, trace = [Connect, Execute (DeleteFrom ''inventory.hosts'' host_id)]\<rparr>)) \<and>
   (connect_raises env = None \<and> execute_raises env = None \<and>
    map_of (tables db) ''rbac.workspaces'' = Some rows \<and> filter (has_id workspace_id) rows = [] \<longrightarrow>
      serve (delete_workspace env workspace_id) db =
        (Inr \<lparr>status = 404, body = ErrorMsg ''Workspace not found''\<rparr>,
         \<lparr>store = db, trace = [Connect, Execute (DeleteFrom ''rbac.workspaces'' workspace_id)]\<rparr>)) \<and>
   (connect_raises env = None \<and> execute_raises env = None \<and>
    map_of (tables db) ''inventory.hosts'' = Some rows \<and> filter (has_id host_id) rows = [] \<and>
    json_body req = Some (JObj kvs) \<and> host_updates kvs \<noteq> [] \<and>
    list_all adaptable_param (map snd (host_updates kvs)) \<longrightarrow>
      serve (update_host env host_id req) db =
        (Inr \<lparr>status = 404, body = ErrorMsg ''Host not found''\<rparr>,
         \<lparr>store = db,
          trace = [Connect,
                   Execute (UpdateReturning ''inventory.hosts''
                     (host_updates kvs @ [(''updated_at'', Timestamp (datetime_now env 0))])
                     host_id)]\<rparr>)) \<and>
   (filter (has_id host_id) (table_rows db ''inventory.hosts'') = [] \<longrightarrow>
      left_unchanged db (serve (delete_host env host_id) db) \<and>
      left_unchanged db (serve (update_host env host_id req) db)) \<and>
   (filter (has_id workspace_id) (table_rows db ''rbac.workspaces'') = [] \<longrightarrow>
      left_unchanged db (serve (delete_workspace env workspace_id) db))"
  using delete_host_404 [of env db rows host_id] delete_workspace_404 [of env db rows workspace_id]
    update_host_404 [of env db rows host_id req kvs]
    delete_host_missing_target [of host_id db env]
    delete_workspace_missing_target [of workspace_id db env]
    update_host_missing_target [of host_id db env req]
  by blast

theorem missing_target_rejected_witness:
  "filter (has_id ''h9'') (table_rows example_db ''inventory.hosts'') = [] \<and>
   filter (has_id ''w9'') (table_rows example_db ''rbac.workspaces'') = [] \<and>
   status_of (serve (delete_host example_env ''h9'') example_db) = 404 \<and>
   status_of (serve (delete_workspace example_env ''w9'') example_db) = 404 \<and>
   status_of (serve (update_host example_env ''h9'' example_req) example_db) = 404 \<and>
   left_unchanged example_db (serve (update_host example_env ''h9'' example_req) example_db)"
  using missing_target_rejected
          [of example_env example_db "[]" "''h9''" "''w9''" example_req
              "[(''display_name'', JStr ''web-2'')]"]
        missing_target_rejected
          [of example_env example_db "table_rows example_db ''inventory.hosts''" "''h9''" "''w9''"
              example_req "[(''display_name'', JStr ''web-2'')]"]
  by (simp add: delete_host_closed delete_workspace_closed update_host_closed example_simps)

section \<open>Updates without fields\<close>

text \<open>
  Claim C10, as stated, fails: \<open>update_host\<close> opens the database connection before it
  looks at the body, so with the database unreachable a body without fields is answered
  with 500, not 400.
\<close>

theorem no_fields_always_400_counterexample:
  "json_body empty_req = Some (JObj []) \<and>
   fst (serve (update_host db_down_env ''h1'' empty_req) example_db) =
     Inr \<lparr>status = 500, body = ErrorStr (OperationalError ''connection refused'')\<rparr>"
  by (simp add: update_host_closed example_simps)

text \<open>
  Claim C10, amended. For a body that is a JSON object with neither \<open>display_name\<close> nor
  \<open>canonical_facts\<close>: when the database connection opens, \<open>update_host\<close> answers 400 with
  the error \<open>No fields to update\<close>, having executed no statement (the trace holds the
  connect alone), and the database is as before, whether the body is empty or not and
  whether the host exists or not; when the connection cannot be opened it answers 500, and
  the database is as before too.
\<close>

theorem no_fields_to_update:
  "(json_body req = Some (JObj kvs) \<and> map_of kvs ''display_name'' = None \<and>
    map_of kvs ''canonical_facts'' = None \<and> connect_raises env = None \<longrightarrow>
      serve (update_host env host_id req) db =
        (Inr \<lparr>status = 400, body = ErrorMsg ''No fields to update''\<rparr>,
         \<lparr>store = db, trace = [Connect]\<rparr>)) \<and>
   (json_body req = Some (JObj kvs) \<and> map_of kvs ''display_name'' = None \<and>
    map_of kvs ''canonical_facts'' = None \<and> connect_raises env = Some m \<longrightarrow>
      serve (update_host env host_id req) db =
        (Inr \<lparr>status = 500, body = ErrorStr (OperationalError m)\<rparr>,
         \<lparr>store = db,
          trace = [Log ERROR ''Error updating host: {}'' [AExn (OperationalError m)]]\<rparr>))"
  by (simp add: update_host_closed host_updates_def jsonify_error_def failed_def)

theorem no_fields_to_update_witness:
  "json_body named_req = Some (JObj [(''name'', JStr ''ops''), (''workspace_id'', JStr ''w1'')]) \<and>
   connect_raises example_env = None \<and>
   status_of (serve (update_host example_env ''h1'' named_req) example_db) = 400 \<and>
   db_after (serve (update_host example_env ''h1'' named_req) example_db) = example_db \<and>
   status_of (serve (update_host example_env ''h9'' named_req) example_db) = 400 \<and>
   status_of (serve (update_host db_down_env ''h1'' named_req) example_db) = 500 \<and>
   db_after (serve (update_host db_down_env ''h1'' named_req) example_db) = example_db"
  using no_fields_to_update
          [of named_req "[(''name'', JStr ''ops''), (''workspace_id'', JStr ''w1'')]"
              example_env "''h1''" example_db]
        no_fields_to_update
          [of named_req "[(''name'', JStr ''ops''), (''workspace_id'', JStr ''w1'')]"
              example_env "''h9''" example_db]
        no_fields_to_update
          [of named_req "[(''name'', JStr ''ops''), (''workspace_id'', JStr ''w1'')]"
              db_down_env "''h1''" example_db "''connection refused''"]
  by (simp add: named_req_def example_env_def db_down_env_def status_of_def db_after_def)

end
